theory Spec2Isabelle
  imports Complex_Main
begin

section \<open>Strings\<close>

text \<open>
  A JavaScript string is a sequence of UTF-16 code units. It is modelled as a
  \<^typ>\<open>string\<close> whose characters stand for the code units below 256, read as Latin-1.
  Within that range the white space of \<open>\s\<close>, of \<open>trim\<close> and of \<open>parseInt\<close> is TAB, LF,
  VT, FF, CR, SPACE and NBSP; \<open>\w\<close> is \<open>[A-Za-z0-9_]\<close> and \<open>\d\<close> is \<open>[0-9]\<close>.
\<close>

definition is_space :: "char \<Rightarrow> bool" where
  "is_space c = (let n = (of_char c :: nat) in (9 \<le> n \<and> n \<le> 13) \<or> n = 32 \<or> n = 160)"

definition is_digit :: "char \<Rightarrow> bool" where
  "is_digit c = (let n = (of_char c :: nat) in 48 \<le> n \<and> n \<le> 57)"

definition is_upper :: "char \<Rightarrow> bool" where
  "is_upper c = (let n = (of_char c :: nat) in 65 \<le> n \<and> n \<le> 90)"

definition is_lower :: "char \<Rightarrow> bool" where
  "is_lower c = (let n = (of_char c :: nat) in 97 \<le> n \<and> n \<le> 122)"

definition is_alnum :: "char \<Rightarrow> bool" where
  \<comment> \<open>the class \<open>[a-zA-Z0-9]\<close>\<close>
  "is_alnum c = (is_lower c \<or> is_upper c \<or> is_digit c)"

definition is_word :: "char \<Rightarrow> bool" where
  \<comment> \<open>the class \<open>\w\<close>\<close>
  "is_word c = (is_alnum c \<or> c = CHR ''_'')"

definition lower_char :: "char \<Rightarrow> char" where
  \<comment> \<open>lower case of one Latin-1 code unit: A-Z, and the accented capitals 0xC0-0xDE
      except the multiplication sign 0xD7, move up by 32\<close>
  "lower_char c =
     (let n = (of_char c :: nat)
      in if (65 \<le> n \<and> n \<le> 90) \<or> (192 \<le> n \<and> n \<le> 222 \<and> n \<noteq> 215)
         then char_of (n + 32) else c)"

definition toLowerCase :: "string \<Rightarrow> string" where
  "toLowerCase s = map lower_char s"

definition trim :: "string \<Rightarrow> string" where
  "trim s = rev (dropWhile is_space (rev (dropWhile is_space s)))"

fun replace_crlf :: "string \<Rightarrow> string" where
  \<comment> \<open>\<open>pgn.replace(/\r\n/g, '\n')\<close>\<close>
  "replace_crlf [] = []"
| "replace_crlf [c] = [c]"
| "replace_crlf (c # d # s) =
     (if c = CHR 0x0D \<and> d = CHR 0x0A then CHR 0x0A # replace_crlf s
      else c # replace_crlf (d # s))"

fun is_prefix :: "string \<Rightarrow> string \<Rightarrow> bool" where
  "is_prefix [] s = True"
| "is_prefix (a # p) [] = False"
| "is_prefix (a # p) (c # s) = (a = c \<and> is_prefix p s)"

fun lastIndexOf :: "char \<Rightarrow> string \<Rightarrow> nat option" where
  \<comment> \<open>\<open>s.lastIndexOf(c)\<close>; \<open>None\<close> is the result -1\<close>
  "lastIndexOf c [] = None"
| "lastIndexOf c (d # s) =
     (case lastIndexOf c s of
        Some i \<Rightarrow> Some (Suc i)
      | None \<Rightarrow> (if d = c then Some 0 else None))"

fun split_on :: "char \<Rightarrow> string \<Rightarrow> string list" where
  \<comment> \<open>\<open>s.split(c)\<close> for a one-character separator: the empty string gives \<open>['']\<close>\<close>
  "split_on c [] = [[]]"
| "split_on c (d # s) =
     (if d = c then [] # split_on c s
      else (case split_on c s of p # ps \<Rightarrow> (d # p) # ps | [] \<Rightarrow> [[d]]))"

fun split_ws :: "string \<Rightarrow> string list" where
  \<comment> \<open>\<open>s.split(/\s+/)\<close>: every maximal run of white space is one separator, so leading
      or trailing white space leaves an empty first or last part\<close>
  "split_ws [] = [[]]"
| "split_ws (d # s) =
     (if is_space d
      then (case s of
              [] \<Rightarrow> [[], []]
            | e # t \<Rightarrow> if is_space e then split_ws s else [] # split_ws s)
      else (case split_ws s of p # ps \<Rightarrow> (d # p) # ps | [] \<Rightarrow> [[d]]))"

section \<open>The PGN parser\<close>

record ChessMove =
  move :: string
  evaluation :: "rat option"
  position :: "string option"
  comment :: "string option"

record ChessGame =
  event :: "string option"
  site :: "string option"
  date :: "string option"
  white :: "string option"
  black :: "string option"
  result :: "string option"
  whitePieceType :: "string option"
  timeControl :: "string option"
  eco :: "string option"
  openingName :: "string option"  \<comment> \<open>the field \<open>opening\<close>\<close>
  moves :: "ChessMove list"
  fen :: "string option"
  rawPgn :: string

definition match_header :: "string \<Rightarrow> (string \<times> string \<times> string) option" where
  \<comment> \<open>one attempt of \<open>/\[(\w+)\s+"([^"]*)"\]/\<close> at the head of the text: the key, the value
      and the text after the match. The classes of consecutive parts are disjoint, so the
      greedy runs are the only way to match and no backtracking is lost.\<close>
  "match_header s =
     (case s of
        [] \<Rightarrow> None
      | c # s1 \<Rightarrow>
          if c \<noteq> CHR ''['' then None
          else let key = takeWhile is_word s1; s2 = dropWhile is_word s1;
                   sp = takeWhile is_space s2; s3 = dropWhile is_space s2
               in if key = [] \<or> sp = [] then None
                  else (case s3 of
                          [] \<Rightarrow> None
                        | q # s4 \<Rightarrow>
                            if q \<noteq> CHR 0x22 then None
                            else let v = takeWhile (\<lambda>x. x \<noteq> CHR 0x22) s4;
                                     s5 = dropWhile (\<lambda>x. x \<noteq> CHR 0x22) s4
                                 in (case s5 of
                                       q2 # b # s6 \<Rightarrow>
                                         if b = CHR '']'' then Some (key, v, s6) else None
                                     | _ \<Rightarrow> None)))"

lemma match_header_shorter:
  "match_header s = Some (k, v, r) \<Longrightarrow> length r < length s"
proof -
  assume a: "match_header s = Some (k, v, r)"
  have dw: "\<And>P (xs :: string). length (dropWhile P xs) \<le> length xs"
    by (simp add: length_dropWhile_le)
  from a obtain s1 where s: "s = CHR ''['' # s1"
    by (auto simp: match_header_def split: list.splits if_splits)
  define s2 where "s2 = dropWhile is_word s1"
  define s3 where "s3 = dropWhile is_space s2"
  from a s obtain s4 where s3: "s3 = CHR 0x22 # s4"
    by (auto simp: match_header_def Let_def s2_def s3_def split: list.splits if_splits)
  define s5 where "s5 = dropWhile (\<lambda>x. x \<noteq> CHR 0x22) s4"
  from a s s3 obtain q2 where s5: "s5 = q2 # CHR '']'' # r"
    by (auto simp: match_header_def Let_def s2_def s3_def s5_def split: list.splits if_splits)
  have "length s5 \<le> length s4" unfolding s5_def by (rule dw)
  moreover have "length s3 \<le> length s2" unfolding s3_def by (rule dw)
  moreover have "length s2 \<le> length s1" unfolding s2_def by (rule dw)
  ultimately show ?thesis using s s3 s5 by simp
qed

function headers :: "string \<Rightarrow> (string \<times> string) list" where
  \<comment> \<open>the loop \<open>while ((m = headerRegex.exec(cleanPgn)) !== null)\<close> of a global regex:
      the matches from left to right, each search starting where the last match ended\<close>
  "headers [] = []"
| "headers (c # s) =
     (case match_header (c # s) of
        Some (k, v, r) \<Rightarrow> (k, v) # headers r
      | None \<Rightarrow> headers s)"
  by pat_completeness auto
termination
  by (relation "measure length") (auto dest: match_header_shorter)

definition set_header :: "ChessGame \<Rightarrow> string \<times> string \<Rightarrow> ChessGame" where
  \<comment> \<open>the \<open>switch (key.toLowerCase())\<close>\<close>
  "set_header game kv =
     (let key = toLowerCase (fst kv); v = snd kv
      in if key = ''event'' then game\<lparr>event := Some v\<rparr>
         else if key = ''site'' then game\<lparr>site := Some v\<rparr>
         else if key = ''date'' then game\<lparr>date := Some v\<rparr>
         else if key = ''white'' then game\<lparr>white := Some v\<rparr>
         else if key = ''black'' then game\<lparr>black := Some v\<rparr>
         else if key = ''result'' then game\<lparr>result := Some v\<rparr>
         else if key = ''timecontrol'' then game\<lparr>timeControl := Some v\<rparr>
         else if key = ''eco'' then game\<lparr>eco := Some v\<rparr>
         else if key = ''opening'' then game\<lparr>openingName := Some v\<rparr>
         else if key = ''fen'' then game\<lparr>fen := Some v\<rparr>
         else game)"

definition result_tokens :: "string list" where
  "result_tokens = [''1-0'', ''0-1'', ''1/2-1/2'', ''*'']"

definition match_result_tail :: "string \<Rightarrow> bool" where
  \<comment> \<open>one attempt of \<open>/\s*(1-0|0-1|1\/2-1\/2|\*)\s*$/\<close> at the head of the text. No
      alternative starts with white space, so only the greedy run can be followed by one.\<close>
  "match_result_tail s =
     (let s1 = dropWhile is_space s
      in list_ex (\<lambda>tok. is_prefix tok s1 \<and> list_all is_space (drop (length tok) s1))
           result_tokens)"

fun strip_result :: "string \<Rightarrow> string" where
  \<comment> \<open>\<open>moveText.replace(/\s*(1-0|0-1|1\/2-1\/2|\*)\s*$/, '')\<close>: the leftmost position
      where the pattern matches; the match runs to the end of the text and is removed\<close>
  "strip_result [] = []"
| "strip_result (c # s) = (if match_result_tail (c # s) then [] else c # strip_result s)"

function strip_move_numbers :: "string \<Rightarrow> string" where
  \<comment> \<open>\<open>moveText.replace(/\d+\.\s*/g, '')\<close>: at a position where digits and a dot follow,
      they and the white space after them are removed; otherwise the character is kept
      and the search goes on one character later\<close>
  "strip_move_numbers [] = []"
| "strip_move_numbers (c # s) =
     (let rest = dropWhile is_digit (c # s)
      in if is_digit c \<and> rest \<noteq> [] \<and> hd rest = CHR ''.''
         then strip_move_numbers (dropWhile is_space (tl rest))
         else c # strip_move_numbers s)"
  by pat_completeness auto
termination
proof (relation "measure length", goal_cases)
  case 1
  show ?case by simp
next
  case (2 c s rest)
  have a: "length (dropWhile is_space (tl rest)) \<le> length (tl rest)"
    by (rule length_dropWhile_le)
  have b: "length rest \<le> length (c # s)"
    unfolding 2(1) by (rule length_dropWhile_le)
  have "rest \<noteq> []" using 2(2) by simp
  then have c: "length (tl rest) < length rest" by (cases rest) auto
  from a b c have "length (dropWhile is_space (tl rest)) < length (c # s)" by linarith
  then show ?case by (simp del: dropWhile.simps)
next
  case 3
  then show ?case by simp
qed

definition parseMoves :: "string \<Rightarrow> ChessGame \<Rightarrow> ChessGame" where
  "parseMoves moveText game =
     (let moveText1 = strip_result moveText;
          moveText2 = strip_move_numbers moveText1;
          moveParts = filter (\<lambda>part. trim part \<noteq> []) (split_ws moveText2)
      in game\<lparr>moves := moves game @
           map (\<lambda>m. \<lparr>move = m, evaluation = None, position = None, comment = None\<rparr>)
             (filter (list_ex is_alnum) moveParts)\<rparr>)"

definition parsePgn :: "string \<Rightarrow> ChessGame" where
  "parsePgn pgn =
     (let cleanPgn = trim (replace_crlf pgn);
          game0 = \<lparr>event = None, site = None, date = None, white = None, black = None,
                   result = None, whitePieceType = None, timeControl = None, eco = None,
                   openingName = None, moves = [], fen = None, rawPgn = cleanPgn\<rparr>;
          game = foldl set_header game0 (headers cleanPgn)
      in case lastIndexOf CHR '']'' cleanPgn of
           None \<Rightarrow> parseMoves cleanPgn game
         | Some lastHeaderIndex \<Rightarrow>
             parseMoves (trim (drop (lastHeaderIndex + 1) cleanPgn)) game)"

section \<open>Basic information of a game\<close>

text \<open>
  \<open>parseInt(s)\<close> without a radix: leading white space is skipped, one sign is read, a
  prefix \<open>0x\<close> or \<open>0X\<close> selects radix 16, and the longest prefix of digits of the radix
  is the value; with no digit the result is \<open>NaN\<close>, here \<open>None\<close>. The value is an exact
  integer (JavaScript rounds it to a double; whether it is \<open>NaN\<close> does not depend on that).
\<close>

definition digit_value :: "char \<Rightarrow> nat option" where
  "digit_value c =
     (let n = (of_char c :: nat)
      in if is_digit c then Some (n - 48)
         else if 97 \<le> n \<and> n \<le> 102 then Some (n - 87)
         else if 65 \<le> n \<and> n \<le> 70 then Some (n - 55)
         else None)"

definition is_radix_digit :: "nat \<Rightarrow> char \<Rightarrow> bool" where
  "is_radix_digit radix c = (case digit_value c of None \<Rightarrow> False | Some v \<Rightarrow> v < radix)"

definition digits_value :: "nat \<Rightarrow> string \<Rightarrow> nat" where
  "digits_value radix ds =
     foldl (\<lambda>acc c. acc * radix + (case digit_value c of None \<Rightarrow> 0 | Some v \<Rightarrow> v)) 0 ds"

definition parseInt :: "string \<Rightarrow> int option" where
  "parseInt s =
     (let s1 = dropWhile is_space s;
          negative = is_prefix ''-'' s1;
          s2 = (if is_prefix ''-'' s1 \<or> is_prefix ''+'' s1 then tl s1 else s1);
          hex = (is_prefix ''0x'' s2 \<or> is_prefix ''0X'' s2);
          radix = (if hex then 16 else 10);
          s3 = (if hex then drop 2 s2 else s2);
          ds = takeWhile (is_radix_digit radix) s3
      in if ds = [] then None
         else Some (if negative then - int (digits_value radix ds)
                    else int (digits_value radix ds)))"

text \<open>
  A \<open>Date\<close> object is modelled by the three arguments \<open>new Date(year, month, day)\<close> is
  built from; the month is an index, 0 for January.
\<close>

datatype JsDate = NewDate int int int

record BasicInfo =
  info_white :: string
  info_black :: string
  info_result :: string
  info_date :: "JsDate option"
  info_opening :: "string option"
  info_timeControl :: "string option"

definition truthy :: "string option \<Rightarrow> bool" where
  \<comment> \<open>an optional string used as a condition: \<open>undefined\<close> and \<open>''\<close> are false\<close>
  "truthy v = (case v of None \<Rightarrow> False | Some s \<Rightarrow> s \<noteq> [])"

definition or_else :: "string option \<Rightarrow> string \<Rightarrow> string" where
  \<comment> \<open>\<open>v || d\<close> for an optional string\<close>
  "or_else v d = (case v of None \<Rightarrow> d | Some s \<Rightarrow> if s = [] then d else s)"

definition parse_date :: "string option \<Rightarrow> JsDate option" where
  \<comment> \<open>the block \<open>let date; if (game.date) { ... }\<close> of \<open>extractBasicInfo\<close>\<close>
  "parse_date d =
     (case d of
        None \<Rightarrow> None
      | Some text \<Rightarrow>
          if text = [] then None
          else (case split_on CHR ''.'' text of
                  [p0, p1, p2] \<Rightarrow>
                    (let year = parseInt p0;
                         month = map_option (\<lambda>m. m - 1) (parseInt p1);
                         day = parseInt p2
                     in case (year, month, day) of
                          (Some y, Some m, Some dd) \<Rightarrow> Some (NewDate y m dd)
                        | _ \<Rightarrow> None)
                | _ \<Rightarrow> None))"

definition extractBasicInfo :: "string \<Rightarrow> BasicInfo" where
  "extractBasicInfo pgn =
     (let game = parsePgn pgn
      in \<lparr>info_white = or_else (white game) ''Unknown'',
          info_black = or_else (black game) ''Unknown'',
          info_result = or_else (result game) ''*'',
          info_date = parse_date (date game),
          info_opening = openingName game,
          info_timeControl = timeControl game\<rparr>)"

section \<open>The colour of the user\<close>

definition determineUserColor :: "ChessGame \<Rightarrow> string \<Rightarrow> string" where
  "determineUserColor parsedGame username =
     (if map_option toLowerCase (white parsedGame) = Some (toLowerCase username) then ''white''
      else if map_option toLowerCase (black parsedGame) = Some (toLowerCase username)
      then ''black''
      else ''white'')"

section \<open>The rules engine\<close>

text \<open>
  The analysis drives the chess rules of the library \<open>chess.js\<close>, which is not part of
  the repository. The library is a parameter of the model: a record of the operations the
  analysis calls, over a type \<open>'p\<close> of positions. Every theorem below holds for any such
  record. \<open>move\<close> and \<open>load\<close> are the operations of the library that throw (on a move that
  is not legal, on a malformed FEN); they return \<open>None\<close> where the library throws. The
  board \<open>chess.board()\<close> is always 8 by 8 and is read by row and column, row 0 being the
  eighth rank and column 0 the a-file. A verbose move of \<open>chess.moves({verbose: true})\<close> is
  kept as the two fields the analysis reads.
\<close>

datatype color = W | B

datatype piece_type = Pawn | Knight | Bishop | Rook | Queen | King

record piece =
  ptype :: piece_type
  pcolor :: color

record vmove =
  san :: string
  flags :: string

record 'p rules =
  start_pos :: 'p
  load_fen :: "string \<Rightarrow> 'p option"
  fen_of :: "'p \<Rightarrow> string"
  turn_of :: "'p \<Rightarrow> color"
  board_of :: "'p \<Rightarrow> nat \<Rightarrow> nat \<Rightarrow> piece option"
  get_piece :: "'p \<Rightarrow> string \<Rightarrow> piece option"
  legal_moves :: "'p \<Rightarrow> vmove list"
  play_san :: "'p \<Rightarrow> string \<Rightarrow> 'p option"
  play_move :: "'p \<Rightarrow> vmove \<Rightarrow> 'p option"
  attacked :: "'p \<Rightarrow> string \<Rightarrow> color \<Rightarrow> bool"

text \<open>
  A \<open>Chess\<close> object is the current position and the stack of the positions the moves made
  so far were played from: \<open>move\<close> pushes, \<open>undo\<close> pops and does nothing on an empty stack,
  \<open>reset\<close> and \<open>load\<close> clear the stack.
\<close>

record 'p chess =
  cur :: 'p
  history :: "'p list"

datatype error = InvalidMove string | InvalidFen string

definition new_chess :: "'p rules \<Rightarrow> 'p chess" where
  "new_chess E = \<lparr>cur = start_pos E, history = []\<rparr>"

definition reset :: "'p rules \<Rightarrow> 'p chess \<Rightarrow> 'p chess" where
  "reset E c = \<lparr>cur = start_pos E, history = []\<rparr>"

definition load :: "'p rules \<Rightarrow> 'p chess \<Rightarrow> string \<Rightarrow> error + 'p chess" where
  "load E c f =
     (case load_fen E f of
        None \<Rightarrow> Inl (InvalidFen f)
      | Some p \<Rightarrow> Inr \<lparr>cur = p, history = []\<rparr>)"

definition move_san :: "'p rules \<Rightarrow> 'p chess \<Rightarrow> string \<Rightarrow> error + 'p chess" where
  \<comment> \<open>\<open>chess.move(text)\<close>\<close>
  "move_san E c m =
     (case play_san E (cur c) m of
        None \<Rightarrow> Inl (InvalidMove m)
      | Some p \<Rightarrow> Inr \<lparr>cur = p, history = cur c # history c\<rparr>)"

definition move_obj :: "'p rules \<Rightarrow> 'p chess \<Rightarrow> vmove \<Rightarrow> error + 'p chess" where
  \<comment> \<open>\<open>chess.move(moveObject)\<close>\<close>
  "move_obj E c mv =
     (case play_move E (cur c) mv of
        None \<Rightarrow> Inl (InvalidMove (san mv))
      | Some p \<Rightarrow> Inr \<lparr>cur = p, history = cur c # history c\<rparr>)"

definition undo :: "'p chess \<Rightarrow> 'p chess" where
  "undo c = (case history c of [] \<Rightarrow> c | p # h \<Rightarrow> \<lparr>cur = p, history = h\<rparr>)"

definition turn :: "'p rules \<Rightarrow> 'p chess \<Rightarrow> color" where
  "turn E c = turn_of E (cur c)"

definition fen_string :: "'p rules \<Rightarrow> 'p chess \<Rightarrow> string" where
  \<comment> \<open>\<open>chess.fen()\<close>\<close>
  "fen_string E c = fen_of E (cur c)"

definition board :: "'p rules \<Rightarrow> 'p chess \<Rightarrow> nat \<Rightarrow> nat \<Rightarrow> piece option" where
  "board E c = board_of E (cur c)"

definition squares :: "(nat \<times> nat) list" where
  \<comment> \<open>the pairs of \<open>for (row = 0; row < 8; row++) for (col = 0; col < 8; col++)\<close>\<close>
  "squares = List.product [0..<8] [0..<8]"

definition square_name :: "nat \<Rightarrow> nat \<Rightarrow> string" where
  \<comment> \<open>\<open>String.fromCharCode(97 + col) + (8 - row)\<close>, for a row below 8\<close>
  "square_name row col = [char_of (97 + col), char_of (48 + (8 - row))]"

section \<open>The position evaluator\<close>

text \<open>
  \<open>MockStockfish\<close> holds a \<open>Chess\<close> object of its own. An evaluation is an integer; the
  initial \<open>-Infinity\<close> of the best-move search is \<open>None\<close>.
\<close>

record BestMove =
  bm_move :: string
  bm_evaluation :: "int option"

definition setPosition :: "'p rules \<Rightarrow> 'p chess \<Rightarrow> string \<Rightarrow> 'p chess" where
  "setPosition E eng f = (case load E eng f of Inr c \<Rightarrow> c | Inl e \<Rightarrow> reset E eng)"

definition pieceValues :: "piece_type \<Rightarrow> int" where
  \<comment> \<open>\<open>pieceValues[piece.type] || 0\<close>: the king is not in the table\<close>
  "pieceValues t =
     (case t of Pawn \<Rightarrow> 1 | Knight \<Rightarrow> 3 | Bishop \<Rightarrow> 3 | Rook \<Rightarrow> 5 | Queen \<Rightarrow> 9 | King \<Rightarrow> 0)"

definition evaluateMaterial :: "'p rules \<Rightarrow> 'p chess \<Rightarrow> int" where
  "evaluateMaterial E eng =
     foldl (\<lambda>score (row, col).
              case board E eng row col of
                None \<Rightarrow> score
              | Some pc \<Rightarrow>
                  score + (if pcolor pc = W then pieceValues (ptype pc)
                           else - pieceValues (ptype pc)))
       0 squares"

definition evaluate :: "'p rules \<Rightarrow> 'p chess \<Rightarrow> int" where
  "evaluate E eng = evaluateMaterial E eng"

definition better :: "int \<Rightarrow> int option \<Rightarrow> bool" where
  \<comment> \<open>\<open>evaluation > bestMove.evaluation\<close>\<close>
  "better v b = (case b of None \<Rightarrow> True | Some w \<Rightarrow> w < v)"

fun best_loop ::
  "'p rules \<Rightarrow> 'p chess \<Rightarrow> vmove list \<Rightarrow> BestMove \<Rightarrow> (error + BestMove) \<times> 'p chess" where
  \<comment> \<open>the loop \<open>for (const move of moves)\<close> of \<open>getBestMove\<close>; \<open>Inl\<close> is an exception\<close>
  "best_loop E eng [] bestMove = (Inr bestMove, eng)"
| "best_loop E eng (mv # ms) bestMove =
     (case move_obj E eng mv of
        Inl e \<Rightarrow> (Inl e, eng)
      | Inr eng1 \<Rightarrow>
          (let evaluation = - evaluate E eng1;
               eng2 = undo eng1
           in best_loop E eng2 ms
                (if better evaluation (bm_evaluation bestMove)
                 then \<lparr>bm_move = san mv, bm_evaluation = Some evaluation\<rparr>
                 else bestMove)))"

definition getBestMove :: "'p rules \<Rightarrow> 'p chess \<Rightarrow> BestMove \<times> 'p chess" where
  "getBestMove E eng =
     (let moves = legal_moves E (cur eng)
      in if moves = [] then (\<lparr>bm_move = [], bm_evaluation = Some 0\<rparr>, eng)
         else (case best_loop E eng moves \<lparr>bm_move = [], bm_evaluation = None\<rparr> of
                 (Inr bestMove, eng1) \<Rightarrow> (bestMove, eng1)
               | (Inl e, eng1) \<Rightarrow> (\<lparr>bm_move = [], bm_evaluation = Some 0\<rparr>, eng1)))"

section \<open>Tactics\<close>

record TacticInfo =
  hasTactic :: bool
  tacticType :: string
  tactic_bestMove :: string  \<comment> \<open>the field \<open>bestMove\<close>\<close>
  explanation :: string

definition countAttackedPieces :: "'p rules \<Rightarrow> 'p chess \<Rightarrow> nat" where
  "countAttackedPieces E c =
     (let turn = turn E c;
          opponent = (if turn = W then B else W)
      in foldl (\<lambda>attackedCount (row, col).
                  case board E c row col of
                    None \<Rightarrow> attackedCount
                  | Some pc \<Rightarrow>
                      if pcolor pc = opponent \<and> attacked E (cur c) (square_name row col) turn
                      then attackedCount + 1 else attackedCount)
           0 squares)"

definition fork_info :: "vmove \<Rightarrow> TacticInfo" where
  "fork_info mv =
     \<lparr>hasTactic = True, tacticType = ''Fork'', tactic_bestMove = san mv,
      explanation = ''There'' @ [CHR 0x27] @
        ''s a fork opportunity where your piece can attack multiple pieces at once.''\<rparr>"

definition pin_info :: "vmove \<Rightarrow> TacticInfo" where
  "pin_info mv =
     \<lparr>hasTactic = True, tacticType = ''Pin/Skewer'', tactic_bestMove = san mv,
      explanation = ''There'' @ [CHR 0x27] @
        ''s an opportunity to pin or skewer one of your opponent'' @ [CHR 0x27] @
        ''s pieces.''\<rparr>"

definition no_tactic :: TacticInfo where
  "no_tactic = \<lparr>hasTactic = False, tacticType = [], tactic_bestMove = [], explanation = []\<rparr>"

fun fork_loop ::
  "'p rules \<Rightarrow> 'p chess \<Rightarrow> vmove list \<Rightarrow> (error + TacticInfo option) \<times> 'p chess" where
  \<comment> \<open>the first loop of \<open>findTactics\<close>: \<open>Inl\<close> is an exception, \<open>Inr (Some t)\<close> the early
      \<open>return\<close>, \<open>Inr None\<close> the end of the loop\<close>
  "fork_loop E c [] = (Inr None, c)"
| "fork_loop E c (mv # ms) =
     (case move_obj E c mv of
        Inl e \<Rightarrow> (Inl e, c)
      | Inr c1 \<Rightarrow>
          (let attackedPieces = countAttackedPieces E c1
           in if 2 \<le> attackedPieces then (Inr (Some (fork_info mv)), undo c1)
              else fork_loop E (undo c1) ms))"

fun pin_loop ::
  "'p rules \<Rightarrow> 'p chess \<Rightarrow> vmove list \<Rightarrow> (error + TacticInfo option) \<times> 'p chess" where
  "pin_loop E c [] = (Inr None, c)"
| "pin_loop E c (mv # ms) =
     (if CHR ''c'' \<in> set (flags mv)
      then (case move_obj E c mv of
              Inl e \<Rightarrow> (Inl e, c)
            | Inr c1 \<Rightarrow>
                (let opponentMoves = length (legal_moves E (cur c1))
                 in if opponentMoves < 10 then (Inr (Some (pin_info mv)), undo c1)
                    else pin_loop E (undo c1) ms))
      else pin_loop E c ms)"

definition findTactics :: "'p rules \<Rightarrow> 'p chess \<Rightarrow> TacticInfo \<times> 'p chess" where
  "findTactics E c =
     (let moves = legal_moves E (cur c)
      in case fork_loop E c moves of
           (Inl e, c1) \<Rightarrow> (no_tactic, c1)
         | (Inr (Some t), c1) \<Rightarrow> (t, c1)
         | (Inr None, c1) \<Rightarrow>
             (case pin_loop E c1 moves of
                (Inl e, c2) \<Rightarrow> (no_tactic, c2)
              | (Inr (Some t), c2) \<Rightarrow> (t, c2)
              | (Inr None, c2) \<Rightarrow> (no_tactic, c2)))"

section \<open>The game analysis pipeline\<close>

record KeyMoment =
  moveNumber :: nat
  km_position :: string
  km_type :: string
  description :: string

record GameAnalysisResult =
  outcome :: string
  ga_userColor :: string
  accuracy :: rat
  blunders :: nat
  mistakes :: nat
  inaccuracies :: nat
  keyMoments :: "KeyMoment list"

text \<open>The local variables of \<open>runGameAnalysis\<close> that its loop changes, with the board
  and the evaluator.\<close>

record 'p game_state =
  gs_chess :: "'p chess"
  gs_engine :: "'p chess"
  gs_blunders :: nat
  gs_mistakes :: nat
  gs_inaccuracies :: nat
  gs_keyMoments :: "KeyMoment list"
  gs_totalMoves :: nat
  gs_goodMoves :: nat

definition isUserMove :: "'p rules \<Rightarrow> 'p chess \<Rightarrow> string \<Rightarrow> bool" where
  "isUserMove E c uc =
     ((turn E c = W \<and> uc = ''white'') \<or> (turn E c = B \<and> uc = ''black''))"

definition abs_diff :: "int option \<Rightarrow> int \<Rightarrow> int option" where
  \<comment> \<open>\<open>Math.abs(bestMove.evaluation - afterMoveEval)\<close>; \<open>None\<close> is \<open>Infinity\<close>\<close>
  "abs_diff b a = (case b of None \<Rightarrow> None | Some v \<Rightarrow> Some \<bar>v - a\<bar>)"

definition exceeds :: "int option \<Rightarrow> rat \<Rightarrow> bool" where
  \<comment> \<open>\<open>evalDiff > t\<close>\<close>
  "exceeds d t = (case d of None \<Rightarrow> True | Some v \<Rightarrow> t < of_int v)"

definition below :: "int option \<Rightarrow> rat \<Rightarrow> bool" where
  \<comment> \<open>\<open>evalDiff < t\<close>\<close>
  "below d t = (case d of None \<Rightarrow> False | Some v \<Rightarrow> of_int v < t)"

definition game_move ::
  "'p rules \<Rightarrow> string \<Rightarrow> nat \<Rightarrow> ChessMove \<Rightarrow> 'p game_state \<Rightarrow> 'p game_state \<times> error option" where
  \<comment> \<open>one round of the loop of \<open>runGameAnalysis\<close>: the state after it and the exception
      that leaves it, if any\<close>
  "game_move E uc i moveInfo st =
     (let chess = gs_chess st;
          currentPosition = fen_string E chess
      in if isUserMove E chess uc
         then
           (let st1 = st\<lparr>gs_totalMoves := gs_totalMoves st + 1\<rparr>;
                eng1 = setPosition E (gs_engine st1) currentPosition;
                (best, eng2) = getBestMove E eng1;
                st2 = st1\<lparr>gs_engine := eng2\<rparr>
            in case move_san E chess (move moveInfo) of
                 Inl e \<Rightarrow>
                   \<comment> \<open>the handler: \<open>chess.move(moveInfo.move)\<close> once more, outside any \<open>try\<close>\<close>
                   (case move_san E chess (move moveInfo) of
                      Inl e2 \<Rightarrow> (st2, Some e2)
                    | Inr chess1 \<Rightarrow> (st2\<lparr>gs_chess := chess1\<rparr>, None))
               | Inr chess1 \<Rightarrow>
                   (let eng3 = setPosition E eng2 (fen_string E chess1);
                        afterMoveEval = evaluate E eng3;
                        evalDiff = abs_diff (bm_evaluation best) afterMoveEval;
                        st3 = st2\<lparr>gs_chess := chess1, gs_engine := eng3\<rparr>;
                        (moveQuality, st4) =
                          (if exceeds evalDiff 2
                           then (''blunder'', st3\<lparr>gs_blunders := gs_blunders st3 + 1\<rparr>)
                           else if exceeds evalDiff 1
                           then (''mistake'', st3\<lparr>gs_mistakes := gs_mistakes st3 + 1\<rparr>)
                           else if exceeds evalDiff (1 / 2)
                           then (''inaccuracy'',
                                 st3\<lparr>gs_inaccuracies := gs_inaccuracies st3 + 1\<rparr>)
                           else (if below evalDiff (1 / 5) then ''excellent'' else ''good'',
                                 st3\<lparr>gs_goodMoves := gs_goodMoves st3 + 1\<rparr>))
                    in if moveQuality = ''blunder'' \<or> moveQuality = ''excellent''
                       then (st4\<lparr>gs_keyMoments := gs_keyMoments st4 @
                               [\<lparr>moveNumber = i div 2 + 1,
                                 km_position = currentPosition,
                                 km_type = moveQuality,
                                 description =
                                   (if moveQuality = ''blunder''
                                    then bm_move best @ '' would have been much better.''
                                    else ''Perfect move!'')\<rparr>]\<rparr>, None)
                       else (st4, None)))
         else
           (case move_san E chess (move moveInfo) of
              Inl e \<Rightarrow> (st, None)
            | Inr chess1 \<Rightarrow> (st\<lparr>gs_chess := chess1\<rparr>, None)))"

fun game_loop ::
  "'p rules \<Rightarrow> string \<Rightarrow> nat \<Rightarrow> ChessMove list \<Rightarrow> 'p game_state \<Rightarrow> 'p game_state \<times> error option" where
  \<comment> \<open>\<open>for (let i = ...; i < parsedGame.moves.length; i++)\<close> from index \<open>i\<close> on: an
      exception ends the loop with the state it left\<close>
  "game_loop E uc i [] st = (st, None)"
| "game_loop E uc i (moveInfo # rest) st =
     (case game_move E uc i moveInfo st of
        (st1, Some e) \<Rightarrow> (st1, Some e)
      | (st1, None) \<Rightarrow> game_loop E uc (i + 1) rest st1)"

definition game_outcome :: "ChessGame \<Rightarrow> string \<Rightarrow> string" where
  "game_outcome parsedGame uc =
     (if truthy (result parsedGame)
      then (if result parsedGame = Some ''1-0''
            then (if uc = ''white'' then ''Win'' else ''Loss'')
            else if result parsedGame = Some ''0-1''
            then (if uc = ''black'' then ''Win'' else ''Loss'')
            else if result parsedGame = Some ''1/2-1/2'' then ''Draw''
            else ''Unknown'')
      else ''Unknown'')"

definition runGameAnalysis ::
  "'p rules \<Rightarrow> 'p chess \<Rightarrow> 'p chess \<Rightarrow> ChessGame \<Rightarrow> string
     \<Rightarrow> GameAnalysisResult \<times> 'p game_state" where
  \<comment> \<open>the evaluator \<open>this.chessEngine\<close>, the board, the game and the colour; returns the
      result with the final state, which holds the board and the evaluator\<close>
  "runGameAnalysis E eng chess parsedGame uc =
     (let st0 = \<lparr>gs_chess = reset E chess, gs_engine = eng, gs_blunders = 0,
                 gs_mistakes = 0, gs_inaccuracies = 0, gs_keyMoments = [],
                 gs_totalMoves = 0, gs_goodMoves = 0\<rparr>;
          st = fst (game_loop E uc 0 (moves parsedGame) st0)
      in (\<lparr>outcome = game_outcome parsedGame uc,
           ga_userColor = uc,
           accuracy = (if 0 < gs_totalMoves st
                       then of_nat (gs_goodMoves st) / of_nat (gs_totalMoves st) * 100
                       else 0),
           blunders = gs_blunders st,
           mistakes = gs_mistakes st,
           inaccuracies = gs_inaccuracies st,
           keyMoments = gs_keyMoments st\<rparr>, st))"

section \<open>The tactics analysis pipeline\<close>

record MissedTactic =
  mt_moveNumber :: nat
  mt_position :: string
  mt_tactic :: string
  mt_explanation :: string

record ExecutedTactic =
  et_moveNumber :: nat
  et_position :: string
  et_tactic :: string

record TacticsAnalysisResult =
  missedTactics :: "MissedTactic list"
  executedTactics :: "ExecutedTactic list"

record 'p tactics_state =
  ts_chess :: "'p chess"
  ts_missed :: "MissedTactic list"
  ts_executed :: "ExecutedTactic list"

definition tactics_move ::
  "'p rules \<Rightarrow> string \<Rightarrow> nat \<Rightarrow> ChessMove \<Rightarrow> 'p tactics_state
     \<Rightarrow> 'p tactics_state \<times> error option" where
  "tactics_move E uc i moveInfo st =
     (let chess = ts_chess st;
          currentPosition = fen_string E chess
      in if isUserMove E chess uc
         then
           (let (tactics, chess0) = findTactics E chess;
                st1 = st\<lparr>ts_chess := chess0\<rparr>
            in case move_san E chess0 (move moveInfo) of
                 Inl e \<Rightarrow>
                   (case move_san E chess0 (move moveInfo) of
                      Inl e2 \<Rightarrow> (st1, Some e2)
                    | Inr chess1 \<Rightarrow> (st1\<lparr>ts_chess := chess1\<rparr>, None))
               | Inr chess1 \<Rightarrow>
                   (let st2 = st1\<lparr>ts_chess := chess1\<rparr>
                    in if hasTactic tactics \<and> tactic_bestMove tactics \<noteq> move moveInfo
                       then (st2\<lparr>ts_missed := ts_missed st2 @
                               [\<lparr>mt_moveNumber = i div 2 + 1,
                                 mt_position = currentPosition,
                                 mt_tactic = tacticType tactics,
                                 mt_explanation = explanation tactics\<rparr>]\<rparr>, None)
                       else if hasTactic tactics
                       then (st2\<lparr>ts_executed := ts_executed st2 @
                               [\<lparr>et_moveNumber = i div 2 + 1,
                                 et_position = currentPosition,
                                 et_tactic = tacticType tactics\<rparr>]\<rparr>, None)
                       else (st2, None)))
         else
           (case move_san E chess (move moveInfo) of
              Inl e \<Rightarrow> (st, None)
            | Inr chess1 \<Rightarrow> (st\<lparr>ts_chess := chess1\<rparr>, None)))"

fun tactics_loop ::
  "'p rules \<Rightarrow> string \<Rightarrow> nat \<Rightarrow> ChessMove list \<Rightarrow> 'p tactics_state
     \<Rightarrow> 'p tactics_state \<times> error option" where
  "tactics_loop E uc i [] st = (st, None)"
| "tactics_loop E uc i (moveInfo # rest) st =
     (case tactics_move E uc i moveInfo st of
        (st1, Some e) \<Rightarrow> (st1, Some e)
      | (st1, None) \<Rightarrow> tactics_loop E uc (i + 1) rest st1)"

definition runTacticsAnalysis ::
  "'p rules \<Rightarrow> 'p chess \<Rightarrow> ChessGame \<Rightarrow> string \<Rightarrow> TacticsAnalysisResult \<times> 'p chess" where
  "runTacticsAnalysis E chess parsedGame uc =
     (let st0 = \<lparr>ts_chess = reset E chess, ts_missed = [], ts_executed = []\<rparr>;
          st = fst (tactics_loop E uc 0 (moves parsedGame) st0)
      in (\<lparr>missedTactics = ts_missed st, executedTactics = ts_executed st\<rparr>, ts_chess st))"

section \<open>The openings analysis pipeline\<close>

record CommonLine =
  line_name :: string
  line_moves :: string

record OpeningsAnalysisResult =
  op_eco :: string
  op_name :: string
  op_accuracy :: rat
  commonLines :: "CommonLine list"
  op_recommendations :: "string list"

fun str_includes :: "string \<Rightarrow> string \<Rightarrow> bool" where
  \<comment> \<open>\<open>s.includes(t)\<close>\<close>
  "str_includes [] t = (t = [])"
| "str_includes (c # s) t = (is_prefix t (c # s) \<or> str_includes s t)"

definition openingsDatabase :: "(string \<times> CommonLine list) list" where
  \<comment> \<open>the keys in the order of the object literal, which is the order of \<open>for ... in\<close>\<close>
  "openingsDatabase =
     [(''Sicilian'',
       [\<lparr>line_name = ''Main line'', line_moves = ''1. e4 c5 2. Nf3 d6 3. d4 cxd4 4. Nxd4''\<rparr>,
        \<lparr>line_name = ''Najdorf'',
         line_moves = ''1. e4 c5 2. Nf3 d6 3. d4 cxd4 4. Nxd4 Nf6 5. Nc3 a6''\<rparr>]),
      (''Ruy Lopez'',
       [\<lparr>line_name = ''Main line'', line_moves = ''1. e4 e5 2. Nf3 Nc6 3. Bb5''\<rparr>,
        \<lparr>line_name = ''Berlin Defense'', line_moves = ''1. e4 e5 2. Nf3 Nc6 3. Bb5 Nf6''\<rparr>]),
      (''French Defense'',
       [\<lparr>line_name = ''Main line'', line_moves = ''1. e4 e6 2. d4 d5''\<rparr>,
        \<lparr>line_name = ''Advance Variation'', line_moves = ''1. e4 e6 2. d4 d5 3. e5''\<rparr>]),
      (''Queen'' @ [CHR 0x27] @ ''s Gambit'',
       [\<lparr>line_name = ''Main line'', line_moves = ''1. d4 d5 2. c4''\<rparr>,
        \<lparr>line_name = ''Queen'' @ [CHR 0x27] @ ''s Gambit Accepted'',
         line_moves = ''1. d4 d5 2. c4 dxc4''\<rparr>,
        \<lparr>line_name = ''Queen'' @ [CHR 0x27] @ ''s Gambit Declined'',
         line_moves = ''1. d4 d5 2. c4 e6''\<rparr>])]"

definition getCommonLinesForOpening :: "string \<Rightarrow> CommonLine list" where
  "getCommonLinesForOpening name =
     (case find (\<lambda>entry. str_includes name (fst entry)) openingsDatabase of
        Some entry \<Rightarrow> snd entry
      | None \<Rightarrow>
          [\<lparr>line_name = ''Basic Opening Principles'',
            line_moves = ''1. Control the center 2. Develop pieces 3. Castle''\<rparr>,
           \<lparr>line_name = ''Common first moves'',
            line_moves = ''1. e4 or 1. d4 (as White), 1...e5 or 1...d5 (as Black)''\<rparr>])"

definition generateOpeningRecommendations :: "string \<Rightarrow> string \<Rightarrow> string list" where
  "generateOpeningRecommendations name uc =
     [''Focus on developing your pieces in the opening'',
      ''Control the center with pawns or pieces'',
      ''Castle early to protect your king'',
      ''Connect your rooks by developing pieces''] @
     (if str_includes name ''Sicilian''
      then [''In the Sicilian, be prepared for tactical complications'',
            ''The Sicilian often leads to imbalanced positions, so calculate carefully'']
      else if str_includes name ''Ruy Lopez'' \<or> str_includes name ''Spanish''
      then [''The Ruy Lopez is a strategic opening, focus on long-term plans'',
            ''Be careful with the bishop on b5, it can be targeted'']
      else if str_includes name ''French''
      then [''In the French Defense, be prepared for closed positions'',
            ''Focus on pawn breaks to open up the position'']
      else if str_includes name (''Queen'' @ [CHR 0x27] @ ''s Gambit'')
      then [''The Queen'' @ [CHR 0x27] @ ''s Gambit often leads to solid, positional play'',
            ''Focus on piece development and piece coordination'']
      else [])"

fun openings_loop ::
  "'p rules \<Rightarrow> string \<Rightarrow> nat \<Rightarrow> ChessMove list \<Rightarrow> 'p chess \<times> nat
     \<Rightarrow> ('p chess \<times> nat) \<times> error option" where
  \<comment> \<open>the state is the board and \<open>numCorrectMoves\<close>\<close>
  "openings_loop E uc i [] st = (st, None)"
| "openings_loop E uc i (moveInfo # rest) (chess, numCorrectMoves) =
     (let userMove = isUserMove E chess uc
      in case move_san E chess (move moveInfo) of
           Inl e \<Rightarrow> ((chess, numCorrectMoves), Some e)
         | Inr chess1 \<Rightarrow>
             openings_loop E uc (i + 1) rest
               (chess1, if userMove \<and> i < 12 then numCorrectMoves + 1 else numCorrectMoves))"

definition runOpeningsAnalysis ::
  "'p rules \<Rightarrow> 'p chess \<Rightarrow> ChessGame \<Rightarrow> string \<Rightarrow> OpeningsAnalysisResult \<times> 'p chess" where
  "runOpeningsAnalysis E chess parsedGame uc =
     (let eco_code = or_else (eco parsedGame) [];
          name = or_else (openingName parsedGame) ''Unknown Opening'';
          openingMoves = take (min 20 (length (moves parsedGame))) (moves parsedGame);
          (chess1, numCorrectMoves) =
             fst (openings_loop E uc 0 openingMoves (reset E chess, 0))
      in (\<lparr>op_eco = eco_code,
           op_name = name,
           op_accuracy = (if 0 < length openingMoves
                          then of_nat numCorrectMoves / of_nat (min (length openingMoves) 20)
                               * 100
                          else 0),
           commonLines = getCommonLinesForOpening name,
           op_recommendations = generateOpeningRecommendations name uc\<rparr>, chess1))"

section \<open>The fundamentals analysis pipeline\<close>

record FundamentalsAnalysisResult =
  pieceDevelopment :: int
  centerControl :: int
  kingSafety :: int
  pawnStructure :: int
  fd_recommendations :: "string list"

definition user_side :: "string \<Rightarrow> color" where
  \<comment> \<open>\<open>userColor === 'white' ? 'w' : 'b'\<close>\<close>
  "user_side uc = (if uc = ''white'' then W else B)"

definition evaluatePieceDevelopment :: "'p rules \<Rightarrow> 'p chess \<Rightarrow> string \<Rightarrow> int" where
  "evaluatePieceDevelopment E chess uc =
     (let side = user_side uc
      in foldl (\<lambda>developmentScore (row, col).
                  case board E chess row col of
                    None \<Rightarrow> developmentScore
                  | Some pc \<Rightarrow>
                      if pcolor pc = side \<and> (ptype pc = Knight \<or> ptype pc = Bishop)
                         \<and> row \<noteq> (if side = W then 7 else 0)
                      then developmentScore + 10 else developmentScore)
           0 squares)"

definition evaluateCenterControl :: "'p rules \<Rightarrow> 'p chess \<Rightarrow> string \<Rightarrow> int" where
  "evaluateCenterControl E chess uc =
     (let side = user_side uc
      in foldl (\<lambda>centerScore square.
                  case get_piece E (cur chess) square of
                    None \<Rightarrow> centerScore
                  | Some pc \<Rightarrow> if pcolor pc = side then centerScore + 15 else centerScore)
           0 [''d4'', ''d5'', ''e4'', ''e5''])"

definition findKing :: "(nat \<Rightarrow> nat \<Rightarrow> piece option) \<Rightarrow> color \<Rightarrow> (nat \<times> nat) option" where
  "findKing b side =
     find (\<lambda>(row, col).
             case b row col of
               None \<Rightarrow> False
             | Some pc \<Rightarrow> ptype pc = King \<and> pcolor pc = side)
       squares"

definition evaluateKingSafety :: "'p rules \<Rightarrow> 'p chess \<Rightarrow> string \<Rightarrow> int" where
  "evaluateKingSafety E chess uc =
     (let side = user_side uc
      in case findKing (board E chess) side of
           None \<Rightarrow> 50
         | Some (row, col) \<Rightarrow>
             if side = W
             then (if (col = 6 \<or> col = 1) \<and> row = 7 then 50 + 30 else 50)
             else (if (col = 6 \<or> col = 1) \<and> row = 0 then 50 + 30 else 50))"

definition is_user_pawn :: "(nat \<Rightarrow> nat \<Rightarrow> piece option) \<Rightarrow> color \<Rightarrow> nat \<Rightarrow> nat \<Rightarrow> bool" where
  \<comment> \<open>\<open>piece && piece.type === 'p' && piece.color === color\<close> at \<open>board[row][col]\<close>\<close>
  "is_user_pawn b side row col =
     (case b row col of None \<Rightarrow> False | Some pc \<Rightarrow> ptype pc = Pawn \<and> pcolor pc = side)"

definition evaluatePawnStructure :: "'p rules \<Rightarrow> 'p chess \<Rightarrow> string \<Rightarrow> int" where
  "evaluatePawnStructure E chess uc =
     (let side = user_side uc;
          b = board E chess;
          (doubledPawns, isolatedPawns) =
            foldl (\<lambda>(doubledPawns, isolatedPawns) col.
                     let pawnsInFile = length (filter (\<lambda>row. is_user_pawn b side row col) [0..<8]);
                         hasPawnInAdjacentFile =
                           list_ex (\<lambda>adjCol. adjCol \<noteq> col
                                      \<and> list_ex (\<lambda>row. is_user_pawn b side row adjCol) [0..<8])
                             [col - 1 ..< Suc (min 7 (col + 1))]
                     in ((if 1 < pawnsInFile then doubledPawns + (pawnsInFile - 1)
                          else doubledPawns),
                         (if 0 < pawnsInFile \<and> \<not> hasPawnInAdjacentFile
                          then isolatedPawns + 1 else isolatedPawns)))
              (0 :: nat, 0 :: nat) [0..<8];
          structureScore = 60 - (int doubledPawns * 5 + int isolatedPawns * 5)
      in max 0 structureScore)"

definition generateFundamentalRecommendations :: "int \<Rightarrow> int \<Rightarrow> int \<Rightarrow> int \<Rightarrow> string list" where
  "generateFundamentalRecommendations development center safety structure =
     (if development < 60
      then [''Focus on developing your minor pieces (knights and bishops) early in the game'',
            ''Avoid moving the same piece multiple times in the opening'']
      else []) @
     (if center < 60
      then [''Control the center with pawns or pieces'',
            ''Consider pawn moves like e4/d4 or e5/d5 to establish center presence'']
      else []) @
     (if safety < 60
      then [''Castle early to protect your king'',
            ''Avoid advancing pawns in front of your castled king without good reason'']
      else []) @
     (if structure < 60
      then [''Avoid creating doubled pawns unless there is compensation'',
            ''Try to maintain a connected pawn chain'']
      else [])"

record 'p fund_state =
  fs_chess :: "'p chess"
  fs_pieceDevelopment :: int
  fs_centerControl :: int
  fs_kingSafety :: int
  fs_pawnStructure :: int

fun fundamentals_loop ::
  "'p rules \<Rightarrow> string \<Rightarrow> nat \<Rightarrow> ChessMove list \<Rightarrow> 'p fund_state \<Rightarrow> 'p fund_state \<times> error option" where
  "fundamentals_loop E uc i [] st = (st, None)"
| "fundamentals_loop E uc i (moveInfo # rest) st =
     (let userMove = isUserMove E (fs_chess st) uc
      in case move_san E (fs_chess st) (move moveInfo) of
           Inl e \<Rightarrow> (st, Some e)
         | Inr chess1 \<Rightarrow>
             fundamentals_loop E uc (i + 1) rest
               (if i < 40 \<and> userMove
                then \<lparr>fs_chess = chess1,
                      fs_pieceDevelopment =
                        fs_pieceDevelopment st + evaluatePieceDevelopment E chess1 uc,
                      fs_centerControl = fs_centerControl st + evaluateCenterControl E chess1 uc,
                      fs_kingSafety = fs_kingSafety st + evaluateKingSafety E chess1 uc,
                      fs_pawnStructure = fs_pawnStructure st + evaluatePawnStructure E chess1 uc\<rparr>
                else st\<lparr>fs_chess := chess1\<rparr>))"

definition clamp100 :: "int \<Rightarrow> int" where
  \<comment> \<open>\<open>Math.min(100, Math.max(0, score))\<close>\<close>
  "clamp100 score = min 100 (max 0 score)"

definition runFundamentalsAnalysis ::
  "'p rules \<Rightarrow> 'p chess \<Rightarrow> ChessGame \<Rightarrow> string \<Rightarrow> FundamentalsAnalysisResult \<times> 'p chess" where
  "runFundamentalsAnalysis E chess parsedGame uc =
     (let st0 = \<lparr>fs_chess = reset E chess, fs_pieceDevelopment = 0, fs_centerControl = 0,
                 fs_kingSafety = 0, fs_pawnStructure = 0\<rparr>;
          st = fst (fundamentals_loop E uc 0 (moves parsedGame) st0);
          pieceDevelopmentScore = clamp100 (fs_pieceDevelopment st);
          centerControlScore = clamp100 (fs_centerControl st);
          kingSafetyScore = clamp100 (fs_kingSafety st);
          pawnStructureScore = clamp100 (fs_pawnStructure st)
      in (\<lparr>pieceDevelopment = pieceDevelopmentScore,
           centerControl = centerControlScore,
           kingSafety = kingSafetyScore,
           pawnStructure = pawnStructureScore,
           fd_recommendations =
             generateFundamentalRecommendations pieceDevelopmentScore centerControlScore
               kingSafetyScore pawnStructureScore\<rparr>, fs_chess st))"

section \<open>The orchestrator\<close>

text \<open>
  The result of the AI path is whatever \<open>JSON.parse\<close> returned, cast to the result type
  without a check. A value of a result type is therefore either built by the analysis
  itself or a JSON value under a cast.
\<close>

datatype json =
  JNull | JBool bool | JNum rat | JStr string | JArr "json list" | JObj "(string \<times> json) list"

datatype 'a cast = Built 'a | Cast json

record AnalysisBundle =
  game :: "GameAnalysisResult cast"
  tactics :: "TacticsAnalysisResult cast"
  openings :: "OpeningsAnalysisResult cast"
  fundamentals :: "FundamentalsAnalysisResult cast"

text \<open>
  What the network does during one call of \<open>analyzePgn\<close>: the value each of the four
  calls of \<open>callOpenRouterAPI\<close> resolves to (\<open>None\<close> when it rejects), and whether
  \<open>performAIAnalysis\<close> settles before the timer of 30 seconds.
\<close>

record ai_env =
  reply_game :: "json option"
  reply_tactics :: "json option"
  reply_openings :: "json option"
  reply_fundamentals :: "json option"
  in_time :: bool

datatype ai_error = AiFailed | TimedOut

definition performAIAnalysis :: "ai_env \<Rightarrow> ai_error + AnalysisBundle" where
  \<comment> \<open>\<open>Promise.all\<close> rejects as soon as one call rejects\<close>
  "performAIAnalysis env =
     (case (reply_game env, reply_tactics env, reply_openings env, reply_fundamentals env) of
        (Some g, Some t, Some ops, Some f) \<Rightarrow>
          Inr \<lparr>game = Cast g, tactics = Cast t, openings = Cast ops, fundamentals = Cast f\<rparr>
      | _ \<Rightarrow> Inl AiFailed)"

definition race :: "ai_env \<Rightarrow> ai_error + AnalysisBundle" where
  \<comment> \<open>\<open>Promise.race([aiAnalysisPromise, timeoutPromise])\<close>\<close>
  "race env = (if in_time env then performAIAnalysis env else Inl TimedOut)"

definition fallbackAnalysis ::
  "'p rules \<Rightarrow> 'p chess \<Rightarrow> ChessGame \<Rightarrow> string \<Rightarrow> AnalysisBundle \<times> 'p chess" where
  \<comment> \<open>returns the bundle and the evaluator \<open>this.chessEngine\<close> as the analysis leaves it\<close>
  "fallbackAnalysis E eng parsedGame uc =
     (let chess = new_chess E;
          (gameAnalysis, st) = runGameAnalysis E eng chess parsedGame uc;
          (tacticsAnalysis, chess2) = runTacticsAnalysis E (gs_chess st) parsedGame uc;
          (openingsAnalysis, chess3) = runOpeningsAnalysis E chess2 parsedGame uc;
          (fundamentalsAnalysis, chess4) = runFundamentalsAnalysis E chess3 parsedGame uc
      in (\<lparr>game = Built gameAnalysis, tactics = Built tacticsAnalysis,
           openings = Built openingsAnalysis, fundamentals = Built fundamentalsAnalysis\<rparr>,
          gs_engine st))"

definition empty_bundle :: AnalysisBundle where
  \<comment> \<open>the bundle of the handler of \<open>analyzePgn\<close>\<close>
  "empty_bundle =
     \<lparr>game = Built \<lparr>outcome = ''Unknown'', ga_userColor = ''white'', accuracy = 0,
                     blunders = 0, mistakes = 0, inaccuracies = 0, keyMoments = []\<rparr>,
      tactics = Built \<lparr>missedTactics = [], executedTactics = []\<rparr>,
      openings = Built \<lparr>op_eco = [], op_name = ''Unknown Opening'', op_accuracy = 0,
                         commonLines = [],
                         op_recommendations =
                           [''Focus on basic opening principles'',
                            ''Develop your pieces toward the center'',
                            ''Castle early'',
                            ''Connect your rooks'']\<rparr>,
      fundamentals = Built \<lparr>pieceDevelopment = 0, centerControl = 0, kingSafety = 0,
                             pawnStructure = 0,
                             fd_recommendations =
                               [''Review basic chess principles'',
                                ''Practice piece coordination'',
                                ''Work on tactical awareness'']\<rparr>\<rparr>"

definition analyze_body ::
  "'p rules \<Rightarrow> string \<Rightarrow> ai_env \<Rightarrow> 'p chess \<Rightarrow> string \<Rightarrow> string
     \<Rightarrow> error + AnalysisBundle \<times> 'p chess" where
  \<comment> \<open>the \<open>try\<close> block of \<open>analyzePgn\<close>; \<open>gameInfo\<close> only feeds the prompts and is left out.
      With a key the fallback analysis is started before the race is awaited.\<close>
  "analyze_body E openRouterApiKey env eng pgn username =
     (let parsedGame = parsePgn pgn;
          uc = determineUserColor parsedGame username
      in if openRouterApiKey = [] then Inr (fallbackAnalysis E eng parsedGame uc)
         else (let fallbackResult = fallbackAnalysis E eng parsedGame uc
               in case race env of
                    Inr aiResult \<Rightarrow> Inr (aiResult, snd fallbackResult)
                  | Inl e \<Rightarrow> Inr fallbackResult))"

definition analyzePgn ::
  "'p rules \<Rightarrow> string \<Rightarrow> ai_env \<Rightarrow> 'p chess \<Rightarrow> string \<Rightarrow> string \<Rightarrow> AnalysisBundle \<times> 'p chess" where
  \<comment> \<open>the rules, the key \<open>this.openRouterApiKey\<close>, the network, the evaluator, and the two
      arguments. The handler also loads the PGN into a board of its own, which it drops.\<close>
  "analyzePgn E openRouterApiKey env eng pgn username =
     (case analyze_body E openRouterApiKey env eng pgn username of
        Inr r \<Rightarrow> r
      | Inl e \<Rightarrow> (empty_bundle, eng))"

definition has_fields :: "'a cast \<Rightarrow> string list \<Rightarrow> bool" where
  \<comment> \<open>every field of the list is present: a built value has them all, a JSON value has
      them when it is an object with these keys\<close>
  "has_fields v ks =
     (case v of
        Built x \<Rightarrow> True
      | Cast j \<Rightarrow> (case j of JObj kvs \<Rightarrow> list_all (\<lambda>k. map_of kvs k \<noteq> None) ks | _ \<Rightarrow> False))"

definition fully_shaped :: "AnalysisBundle \<Rightarrow> bool" where
  "fully_shaped b =
     (has_fields (game b)
        [''outcome'', ''userColor'', ''accuracy'', ''blunders'', ''mistakes'',
         ''inaccuracies'', ''keyMoments'']
      \<and> has_fields (tactics b) [''missedTactics'', ''executedTactics'']
      \<and> has_fields (openings b)
          [''eco'', ''name'', ''accuracy'', ''commonLines'', ''recommendations'']
      \<and> has_fields (fundamentals b)
          [''pieceDevelopment'', ''centerControl'', ''kingSafety'', ''pawnStructure'',
           ''recommendations''])"

definition outcome_of :: "GameAnalysisResult cast \<Rightarrow> json option" where
  \<comment> \<open>the field \<open>outcome\<close> of a game result, \<open>None\<close> when it is absent\<close>
  "outcome_of v =
     (case v of
        Built x \<Rightarrow> Some (JStr (outcome x))
      | Cast j \<Rightarrow> (case j of JObj kvs \<Rightarrow> map_of kvs ''outcome'' | _ \<Rightarrow> None))"

section \<open>A reference rules engine\<close>

text \<open>
  The concrete inputs below run on a rules engine whose positions are FEN strings. The
  board, the side to move and the attack test are computed from the FEN as \<open>chess.js\<close>
  computes them; the legal moves of nine positions (the start position and the six
  positions that follow it in the game \<open>1. e4 d5 2. exd5 Nf6 3. Nc3 Nxd5 4. Nxd5\<close>, a
  knight-fork position and a king-and-rook position) are tabulated in the order in which
  \<open>chess.js\<close> generates them, with the position each move leads to. A position outside
  the table has no legal move. Every string loads as a position.
\<close>

definition piece_of_char :: "char \<Rightarrow> piece option" where
  "piece_of_char c =
     (if c = CHR ''P'' then Some \<lparr>ptype = Pawn, pcolor = W\<rparr>
      else if c = CHR ''p'' then Some \<lparr>ptype = Pawn, pcolor = B\<rparr>
      else if c = CHR ''N'' then Some \<lparr>ptype = Knight, pcolor = W\<rparr>
      else if c = CHR ''n'' then Some \<lparr>ptype = Knight, pcolor = B\<rparr>
      else if c = CHR ''B'' then Some \<lparr>ptype = Bishop, pcolor = W\<rparr>
      else if c = CHR ''b'' then Some \<lparr>ptype = Bishop, pcolor = B\<rparr>
      else if c = CHR ''R'' then Some \<lparr>ptype = Rook, pcolor = W\<rparr>
      else if c = CHR ''r'' then Some \<lparr>ptype = Rook, pcolor = B\<rparr>
      else if c = CHR ''Q'' then Some \<lparr>ptype = Queen, pcolor = W\<rparr>
      else if c = CHR ''q'' then Some \<lparr>ptype = Queen, pcolor = B\<rparr>
      else if c = CHR ''K'' then Some \<lparr>ptype = King, pcolor = W\<rparr>
      else if c = CHR ''k'' then Some \<lparr>ptype = King, pcolor = B\<rparr>
      else None)"

definition empty_run :: "char \<Rightarrow> piece option list option" where
  \<comment> \<open>the empty squares a digit of a FEN row stands for\<close>
  "empty_run c =
     (if c = CHR ''8'' then Some (replicate 8 None)
      else if c = CHR ''7'' then Some (replicate 7 None)
      else if c = CHR ''6'' then Some (replicate 6 None)
      else if c = CHR ''5'' then Some (replicate 5 None)
      else if c = CHR ''4'' then Some (replicate 4 None)
      else if c = CHR ''3'' then Some (replicate 3 None)
      else if c = CHR ''2'' then Some (replicate 2 None)
      else if c = CHR ''1'' then Some [None]
      else None)"

fun fen_rows :: "string \<Rightarrow> piece option list list" where
  \<comment> \<open>the rows of the piece placement, the first field of a FEN\<close>
  "fen_rows [] = [[]]"
| "fen_rows (c # s) =
     (if c = CHR '' '' then [[]]
      else if c = CHR ''/'' then [] # fen_rows s
      else (case fen_rows s of
              [] \<Rightarrow> []
            | r # rs \<Rightarrow>
                (case empty_run c of
                   Some es \<Rightarrow> (es @ r) # rs
                 | None \<Rightarrow> (piece_of_char c # r) # rs)))"

definition rows_at :: "piece option list list \<Rightarrow> nat \<Rightarrow> nat \<Rightarrow> piece option" where
  "rows_at rows row col =
     (if row < length rows \<and> col < length (rows ! row) then rows ! row ! col else None)"

definition ref_board :: "string \<Rightarrow> nat \<Rightarrow> nat \<Rightarrow> piece option" where
  "ref_board f = rows_at (fen_rows f)"

fun ref_turn :: "string \<Rightarrow> color" where
  \<comment> \<open>the side to move, the second field of a FEN\<close>
  "ref_turn [] = B"
| "ref_turn (c # s) =
     (if c = CHR '' '' then (case s of [] \<Rightarrow> B | d # t \<Rightarrow> if d = CHR ''w'' then W else B)
      else ref_turn s)"

definition file_index :: "char \<Rightarrow> nat" where
  "file_index c =
     (if c = CHR ''a'' then 0 else if c = CHR ''b'' then 1 else if c = CHR ''c'' then 2
      else if c = CHR ''d'' then 3 else if c = CHR ''e'' then 4 else if c = CHR ''f'' then 5
      else if c = CHR ''g'' then 6 else if c = CHR ''h'' then 7 else 8)"

definition rank_row :: "char \<Rightarrow> nat" where
  "rank_row c =
     (if c = CHR ''8'' then 0 else if c = CHR ''7'' then 1 else if c = CHR ''6'' then 2
      else if c = CHR ''5'' then 3 else if c = CHR ''4'' then 4 else if c = CHR ''3'' then 5
      else if c = CHR ''2'' then 6 else if c = CHR ''1'' then 7 else 8)"

definition square_coords :: "string \<Rightarrow> nat \<times> nat" where
  \<comment> \<open>row and column of a square name such as \<open>e4\<close>\<close>
  "square_coords sq =
     (case sq of
        [fl, rk] \<Rightarrow> (rank_row rk, file_index fl)
      | _ \<Rightarrow> (8, 8))"

definition ref_get :: "string \<Rightarrow> string \<Rightarrow> piece option" where
  "ref_get f sq = (case square_coords sq of (row, col) \<Rightarrow> ref_board f row col)"

definition sgn_step :: "int \<Rightarrow> int" where
  "sgn_step d = (if d < 0 then - 1 else if 0 < d then 1 else 0)"

definition clear_path :: "(nat \<Rightarrow> nat \<Rightarrow> piece option) \<Rightarrow> nat \<times> nat \<Rightarrow> nat \<times> nat \<Rightarrow> bool" where
  \<comment> \<open>no piece stands strictly between two squares of one line\<close>
  "clear_path b src dst =
     (let dr = int (fst dst) - int (fst src); dc = int (snd dst) - int (snd src);
          n = nat (max \<bar>dr\<bar> \<bar>dc\<bar>)
      in list_all (\<lambda>k. b (nat (int (fst src) + int k * sgn_step dr))
                          (nat (int (snd src) + int k * sgn_step dc)) = None)
           [1 ..< n])"

definition piece_attacks ::
  "(nat \<Rightarrow> nat \<Rightarrow> piece option) \<Rightarrow> piece \<Rightarrow> nat \<times> nat \<Rightarrow> nat \<times> nat \<Rightarrow> bool" where
  \<comment> \<open>the piece on square \<open>src\<close> attacks square \<open>dst\<close>\<close>
  "piece_attacks b pc src dst =
     (let dr = int (fst dst) - int (fst src); dc = int (snd dst) - int (snd src);
          straight = ((dr = 0 \<or> dc = 0) \<and> (dr \<noteq> 0 \<or> dc \<noteq> 0));
          diagonal = (\<bar>dr\<bar> = \<bar>dc\<bar> \<and> dr \<noteq> 0)
      in case ptype pc of
           Pawn \<Rightarrow> \<bar>dc\<bar> = 1 \<and> dr = (if pcolor pc = W then - 1 else 1)
         | Knight \<Rightarrow> (\<bar>dr\<bar> = 1 \<and> \<bar>dc\<bar> = 2) \<or> (\<bar>dr\<bar> = 2 \<and> \<bar>dc\<bar> = 1)
         | King \<Rightarrow> max \<bar>dr\<bar> \<bar>dc\<bar> = 1
         | Rook \<Rightarrow> straight \<and> clear_path b src dst
         | Bishop \<Rightarrow> diagonal \<and> clear_path b src dst
         | Queen \<Rightarrow> (straight \<or> diagonal) \<and> clear_path b src dst)"

definition ref_attacked :: "string \<Rightarrow> string \<Rightarrow> color \<Rightarrow> bool" where
  \<comment> \<open>\<open>chess.isAttacked(square, by)\<close>: some piece of the colour \<open>by\<close> attacks the square\<close>
  "ref_attacked f sq by =
     (let b = ref_board f; dst = square_coords sq
      in list_ex (\<lambda>src. case b (fst src) (snd src) of
                           None \<Rightarrow> False
                         | Some pc \<Rightarrow> pcolor pc = by \<and> piece_attacks b pc src dst)
           squares)"

definition start_fen :: string where
  "start_fen = ''rnbqkbnr/pppppppp/8/8/8/8/PPPPPPPP/RNBQKBNR w KQkq - 0 1''"

definition fork_fen :: string where
  \<comment> \<open>white: king e1, knight d5; black: king e8, rook a8; white to move\<close>
  "fork_fen = ''r3k3/8/8/3N4/8/8/8/4K3 w - - 0 1''"

definition rook_fen :: string where
  \<comment> \<open>white: king a1; black: king a8, rook a2; white to move, in check\<close>
  "rook_fen = ''k7/8/8/8/8/8/r7/K7 w - - 0 1''"

definition start_moves :: "(string \<times> string \<times> string) list" where
  "start_moves =
       [(''a3'', ''n'', ''rnbqkbnr/pppppppp/8/8/8/P7/1PPPPPPP/RNBQKBNR b KQkq - 0 1''),
        (''a4'', ''b'', ''rnbqkbnr/pppppppp/8/8/P7/8/1PPPPPPP/RNBQKBNR b KQkq - 0 1''),
        (''b3'', ''n'', ''rnbqkbnr/pppppppp/8/8/8/1P6/P1PPPPPP/RNBQKBNR b KQkq - 0 1''),
        (''b4'', ''b'', ''rnbqkbnr/pppppppp/8/8/1P6/8/P1PPPPPP/RNBQKBNR b KQkq - 0 1''),
        (''c3'', ''n'', ''rnbqkbnr/pppppppp/8/8/8/2P5/PP1PPPPP/RNBQKBNR b KQkq - 0 1''),
        (''c4'', ''b'', ''rnbqkbnr/pppppppp/8/8/2P5/8/PP1PPPPP/RNBQKBNR b KQkq - 0 1''),
        (''d3'', ''n'', ''rnbqkbnr/pppppppp/8/8/8/3P4/PPP1PPPP/RNBQKBNR b KQkq - 0 1''),
        (''d4'', ''b'', ''rnbqkbnr/pppppppp/8/8/3P4/8/PPP1PPPP/RNBQKBNR b KQkq - 0 1''),
        (''e3'', ''n'', ''rnbqkbnr/pppppppp/8/8/8/4P3/PPPP1PPP/RNBQKBNR b KQkq - 0 1''),
        (''e4'', ''b'', ''rnbqkbnr/pppppppp/8/8/4P3/8/PPPP1PPP/RNBQKBNR b KQkq - 0 1''),
        (''f3'', ''n'', ''rnbqkbnr/pppppppp/8/8/8/5P2/PPPPP1PP/RNBQKBNR b KQkq - 0 1''),
        (''f4'', ''b'', ''rnbqkbnr/pppppppp/8/8/5P2/8/PPPPP1PP/RNBQKBNR b KQkq - 0 1''),
        (''g3'', ''n'', ''rnbqkbnr/pppppppp/8/8/8/6P1/PPPPPP1P/RNBQKBNR b KQkq - 0 1''),
        (''g4'', ''b'', ''rnbqkbnr/pppppppp/8/8/6P1/8/PPPPPP1P/RNBQKBNR b KQkq - 0 1''),
        (''h3'', ''n'', ''rnbqkbnr/pppppppp/8/8/8/7P/PPPPPPP1/RNBQKBNR b KQkq - 0 1''),
        (''h4'', ''b'', ''rnbqkbnr/pppppppp/8/8/7P/8/PPPPPPP1/RNBQKBNR b KQkq - 0 1''),
        (''Na3'', ''n'', ''rnbqkbnr/pppppppp/8/8/8/N7/PPPPPPPP/R1BQKBNR b KQkq - 1 1''),
        (''Nc3'', ''n'', ''rnbqkbnr/pppppppp/8/8/8/2N5/PPPPPPPP/R1BQKBNR b KQkq - 1 1''),
        (''Nf3'', ''n'', ''rnbqkbnr/pppppppp/8/8/8/5N2/PPPPPPPP/RNBQKB1R b KQkq - 1 1''),
        (''Nh3'', ''n'', ''rnbqkbnr/pppppppp/8/8/8/7N/PPPPPPPP/RNBQKB1R b KQkq - 1 1'')]"

definition fork_moves :: "(string \<times> string \<times> string) list" where
  "fork_moves =
       [(''Nb6'', ''n'', ''r3k3/8/1N6/8/8/8/8/4K3 b - - 1 1''),
        (''Nc7+'', ''n'', ''r3k3/2N5/8/8/8/8/8/4K3 b - - 1 1''),
        (''Ne7'', ''n'', ''r3k3/4N3/8/8/8/8/8/4K3 b - - 1 1''),
        (''Nf6+'', ''n'', ''r3k3/8/5N2/8/8/8/8/4K3 b - - 1 1''),
        (''Nf4'', ''n'', ''r3k3/8/8/8/5N2/8/8/4K3 b - - 1 1''),
        (''Ne3'', ''n'', ''r3k3/8/8/8/8/4N3/8/4K3 b - - 1 1''),
        (''Nc3'', ''n'', ''r3k3/8/8/8/8/2N5/8/4K3 b - - 1 1''),
        (''Nb4'', ''n'', ''r3k3/8/8/8/1N6/8/8/4K3 b - - 1 1''),
        (''Kd2'', ''n'', ''r3k3/8/8/3N4/8/8/3K4/8 b - - 1 1''),
        (''Ke2'', ''n'', ''r3k3/8/8/3N4/8/8/4K3/8 b - - 1 1''),
        (''Kf2'', ''n'', ''r3k3/8/8/3N4/8/8/5K2/8 b - - 1 1''),
        (''Kf1'', ''n'', ''r3k3/8/8/3N4/8/8/8/5K2 b - - 1 1''),
        (''Kd1'', ''n'', ''r3k3/8/8/3N4/8/8/8/3K4 b - - 1 1'')]"

definition rook_moves :: "(string \<times> string \<times> string) list" where
  "rook_moves =
       [(''Kxa2'', ''c'', ''k7/8/8/8/8/8/K7/8 b - - 0 1''),
        (''Kb1'', ''n'', ''k7/8/8/8/8/8/r7/1K6 b - - 1 1'')]"

definition line_fen_1 :: string where
  \<comment> \<open>the position after \<open>1. e4\<close>\<close>
  "line_fen_1 = ''rnbqkbnr/pppppppp/8/8/4P3/8/PPPP1PPP/RNBQKBNR b KQkq - 0 1''"

definition line_fen_2 :: string where
  \<comment> \<open>the position after \<open>1... d5\<close>\<close>
  "line_fen_2 = ''rnbqkbnr/ppp1pppp/8/3p4/4P3/8/PPPP1PPP/RNBQKBNR w KQkq - 0 2''"

definition line_fen_3 :: string where
  \<comment> \<open>the position after \<open>2. exd5\<close>\<close>
  "line_fen_3 = ''rnbqkbnr/ppp1pppp/8/3P4/8/8/PPPP1PPP/RNBQKBNR b KQkq - 0 2''"

definition line_fen_4 :: string where
  \<comment> \<open>the position after \<open>2... Nf6\<close>\<close>
  "line_fen_4 = ''rnbqkb1r/ppp1pppp/5n2/3P4/8/8/PPPP1PPP/RNBQKBNR w KQkq - 1 3''"

definition line_fen_5 :: string where
  \<comment> \<open>the position after \<open>3. Nc3\<close>\<close>
  "line_fen_5 = ''rnbqkb1r/ppp1pppp/5n2/3P4/8/2N5/PPPP1PPP/R1BQKBNR b KQkq - 2 3''"

definition line_fen_6 :: string where
  \<comment> \<open>the position after \<open>3... Nxd5\<close>\<close>
  "line_fen_6 = ''rnbqkb1r/ppp1pppp/8/3n4/8/2N5/PPPP1PPP/R1BQKBNR w KQkq - 0 4''"


definition line_moves_1 :: "(string \<times> string \<times> string) list" where
  "line_moves_1 =
       [(''Nc6'', ''n'', ''r1bqkbnr/pppppppp/2n5/8/4P3/8/PPPP1PPP/RNBQKBNR w KQkq - 1 2''),
        (''Na6'', ''n'', ''r1bqkbnr/pppppppp/n7/8/4P3/8/PPPP1PPP/RNBQKBNR w KQkq - 1 2''),
        (''Nh6'', ''n'', ''rnbqkb1r/pppppppp/7n/8/4P3/8/PPPP1PPP/RNBQKBNR w KQkq - 1 2''),
        (''Nf6'', ''n'', ''rnbqkb1r/pppppppp/5n2/8/4P3/8/PPPP1PPP/RNBQKBNR w KQkq - 1 2''),
        (''a6'', ''n'', ''rnbqkbnr/1ppppppp/p7/8/4P3/8/PPPP1PPP/RNBQKBNR w KQkq - 0 2''),
        (''a5'', ''b'', ''rnbqkbnr/1ppppppp/8/p7/4P3/8/PPPP1PPP/RNBQKBNR w KQkq - 0 2''),
        (''b6'', ''n'', ''rnbqkbnr/p1pppppp/1p6/8/4P3/8/PPPP1PPP/RNBQKBNR w KQkq - 0 2''),
        (''b5'', ''b'', ''rnbqkbnr/p1pppppp/8/1p6/4P3/8/PPPP1PPP/RNBQKBNR w KQkq - 0 2''),
        (''c6'', ''n'', ''rnbqkbnr/pp1ppppp/2p5/8/4P3/8/PPPP1PPP/RNBQKBNR w KQkq - 0 2''),
        (''c5'', ''b'', ''rnbqkbnr/pp1ppppp/8/2p5/4P3/8/PPPP1PPP/RNBQKBNR w KQkq - 0 2''),
        (''d6'', ''n'', ''rnbqkbnr/ppp1pppp/3p4/8/4P3/8/PPPP1PPP/RNBQKBNR w KQkq - 0 2''),
        (''d5'', ''b'', ''rnbqkbnr/ppp1pppp/8/3p4/4P3/8/PPPP1PPP/RNBQKBNR w KQkq - 0 2''),
        (''e6'', ''n'', ''rnbqkbnr/pppp1ppp/4p3/8/4P3/8/PPPP1PPP/RNBQKBNR w KQkq - 0 2''),
        (''e5'', ''b'', ''rnbqkbnr/pppp1ppp/8/4p3/4P3/8/PPPP1PPP/RNBQKBNR w KQkq - 0 2''),
        (''f6'', ''n'', ''rnbqkbnr/ppppp1pp/5p2/8/4P3/8/PPPP1PPP/RNBQKBNR w KQkq - 0 2''),
        (''f5'', ''b'', ''rnbqkbnr/ppppp1pp/8/5p2/4P3/8/PPPP1PPP/RNBQKBNR w KQkq - 0 2''),
        (''g6'', ''n'', ''rnbqkbnr/pppppp1p/6p1/8/4P3/8/PPPP1PPP/RNBQKBNR w KQkq - 0 2''),
        (''g5'', ''b'', ''rnbqkbnr/pppppp1p/8/6p1/4P3/8/PPPP1PPP/RNBQKBNR w KQkq - 0 2''),
        (''h6'', ''n'', ''rnbqkbnr/ppppppp1/7p/8/4P3/8/PPPP1PPP/RNBQKBNR w KQkq - 0 2''),
        (''h5'', ''b'', ''rnbqkbnr/ppppppp1/8/7p/4P3/8/PPPP1PPP/RNBQKBNR w KQkq - 0 2'')]"

definition line_moves_2 :: "(string \<times> string \<times> string) list" where
  "line_moves_2 =
       [(''e5'', ''n'', ''rnbqkbnr/ppp1pppp/8/3pP3/8/8/PPPP1PPP/RNBQKBNR b KQkq - 0 2''),
        (''exd5'', ''c'', ''rnbqkbnr/ppp1pppp/8/3P4/8/8/PPPP1PPP/RNBQKBNR b KQkq - 0 2''),
        (''a3'', ''n'', ''rnbqkbnr/ppp1pppp/8/3p4/4P3/P7/1PPP1PPP/RNBQKBNR b KQkq - 0 2''),
        (''a4'', ''b'', ''rnbqkbnr/ppp1pppp/8/3p4/P3P3/8/1PPP1PPP/RNBQKBNR b KQkq - 0 2''),
        (''b3'', ''n'', ''rnbqkbnr/ppp1pppp/8/3p4/4P3/1P6/P1PP1PPP/RNBQKBNR b KQkq - 0 2''),
        (''b4'', ''b'', ''rnbqkbnr/ppp1pppp/8/3p4/1P2P3/8/P1PP1PPP/RNBQKBNR b KQkq - 0 2''),
        (''c3'', ''n'', ''rnbqkbnr/ppp1pppp/8/3p4/4P3/2P5/PP1P1PPP/RNBQKBNR b KQkq - 0 2''),
        (''c4'', ''b'', ''rnbqkbnr/ppp1pppp/8/3p4/2P1P3/8/PP1P1PPP/RNBQKBNR b KQkq - 0 2''),
        (''d3'', ''n'', ''rnbqkbnr/ppp1pppp/8/3p4/4P3/3P4/PPP2PPP/RNBQKBNR b KQkq - 0 2''),
        (''d4'', ''b'', ''rnbqkbnr/ppp1pppp/8/3p4/3PP3/8/PPP2PPP/RNBQKBNR b KQkq - 0 2''),
        (''f3'', ''n'', ''rnbqkbnr/ppp1pppp/8/3p4/4P3/5P2/PPPP2PP/RNBQKBNR b KQkq - 0 2''),
        (''f4'', ''b'', ''rnbqkbnr/ppp1pppp/8/3p4/4PP2/8/PPPP2PP/RNBQKBNR b KQkq - 0 2''),
        (''g3'', ''n'', ''rnbqkbnr/ppp1pppp/8/3p4/4P3/6P1/PPPP1P1P/RNBQKBNR b KQkq - 0 2''),
        (''g4'', ''b'', ''rnbqkbnr/ppp1pppp/8/3p4/4P1P1/8/PPPP1P1P/RNBQKBNR b KQkq - 0 2''),
        (''h3'', ''n'', ''rnbqkbnr/ppp1pppp/8/3p4/4P3/7P/PPPP1PP1/RNBQKBNR b KQkq - 0 2''),
        (''h4'', ''b'', ''rnbqkbnr/ppp1pppp/8/3p4/4P2P/8/PPPP1PP1/RNBQKBNR b KQkq - 0 2''),
        (''Na3'', ''n'', ''rnbqkbnr/ppp1pppp/8/3p4/4P3/N7/PPPP1PPP/R1BQKBNR b KQkq - 1 2''),
        (''Nc3'', ''n'', ''rnbqkbnr/ppp1pppp/8/3p4/4P3/2N5/PPPP1PPP/R1BQKBNR b KQkq - 1 2''),
        (''Qe2'', ''n'', ''rnbqkbnr/ppp1pppp/8/3p4/4P3/8/PPPPQPPP/RNB1KBNR b KQkq - 1 2''),
        (''Qf3'', ''n'', ''rnbqkbnr/ppp1pppp/8/3p4/4P3/5Q2/PPPP1PPP/RNB1KBNR b KQkq - 1 2''),
        (''Qg4'', ''n'', ''rnbqkbnr/ppp1pppp/8/3p4/4P1Q1/8/PPPP1PPP/RNB1KBNR b KQkq - 1 2''),
        (''Qh5'', ''n'', ''rnbqkbnr/ppp1pppp/8/3p3Q/4P3/8/PPPP1PPP/RNB1KBNR b KQkq - 1 2''),
        (''Ke2'', ''n'', ''rnbqkbnr/ppp1pppp/8/3p4/4P3/8/PPPPKPPP/RNBQ1BNR b kq - 1 2''),
        (''Be2'', ''n'', ''rnbqkbnr/ppp1pppp/8/3p4/4P3/8/PPPPBPPP/RNBQK1NR b KQkq - 1 2''),
        (''Bd3'', ''n'', ''rnbqkbnr/ppp1pppp/8/3p4/4P3/3B4/PPPP1PPP/RNBQK1NR b KQkq - 1 2''),
        (''Bc4'', ''n'', ''rnbqkbnr/ppp1pppp/8/3p4/2B1P3/8/PPPP1PPP/RNBQK1NR b KQkq - 1 2''),
        (''Bb5+'', ''n'', ''rnbqkbnr/ppp1pppp/8/1B1p4/4P3/8/PPPP1PPP/RNBQK1NR b KQkq - 1 2''),
        (''Ba6'', ''n'', ''rnbqkbnr/ppp1pppp/B7/3p4/4P3/8/PPPP1PPP/RNBQK1NR b KQkq - 1 2''),
        (''Ne2'', ''n'', ''rnbqkbnr/ppp1pppp/8/3p4/4P3/8/PPPPNPPP/RNBQKB1R b KQkq - 1 2''),
        (''Nf3'', ''n'', ''rnbqkbnr/ppp1pppp/8/3p4/4P3/5N2/PPPP1PPP/RNBQKB1R b KQkq - 1 2''),
        (''Nh3'', ''n'', ''rnbqkbnr/ppp1pppp/8/3p4/4P3/7N/PPPP1PPP/RNBQKB1R b KQkq - 1 2'')]"

definition line_moves_3 :: "(string \<times> string \<times> string) list" where
  "line_moves_3 =
       [(''Nd7'', ''n'', ''r1bqkbnr/pppnpppp/8/3P4/8/8/PPPP1PPP/RNBQKBNR w KQkq - 1 3''),
        (''Nc6'', ''n'', ''r1bqkbnr/ppp1pppp/2n5/3P4/8/8/PPPP1PPP/RNBQKBNR w KQkq - 1 3''),
        (''Na6'', ''n'', ''r1bqkbnr/ppp1pppp/n7/3P4/8/8/PPPP1PPP/RNBQKBNR w KQkq - 1 3''),
        (''Bd7'', ''n'', ''rn1qkbnr/pppbpppp/8/3P4/8/8/PPPP1PPP/RNBQKBNR w KQkq - 1 3''),
        (''Be6'', ''n'', ''rn1qkbnr/ppp1pppp/4b3/3P4/8/8/PPPP1PPP/RNBQKBNR w KQkq - 1 3''),
        (''Bf5'', ''n'', ''rn1qkbnr/ppp1pppp/8/3P1b2/8/8/PPPP1PPP/RNBQKBNR w KQkq - 1 3''),
        (''Bg4'', ''n'', ''rn1qkbnr/ppp1pppp/8/3P4/6b1/8/PPPP1PPP/RNBQKBNR w KQkq - 1 3''),
        (''Bh3'', ''n'', ''rn1qkbnr/ppp1pppp/8/3P4/8/7b/PPPP1PPP/RNBQKBNR w KQkq - 1 3''),
        (''Qd7'', ''n'', ''rnb1kbnr/pppqpppp/8/3P4/8/8/PPPP1PPP/RNBQKBNR w KQkq - 1 3''),
        (''Qd6'', ''n'', ''rnb1kbnr/ppp1pppp/3q4/3P4/8/8/PPPP1PPP/RNBQKBNR w KQkq - 1 3''),
        (''Qxd5'', ''c'', ''rnb1kbnr/ppp1pppp/8/3q4/8/8/PPPP1PPP/RNBQKBNR w KQkq - 0 3''),
        (''Kd7'', ''n'', ''rnbq1bnr/pppkpppp/8/3P4/8/8/PPPP1PPP/RNBQKBNR w KQ - 1 3''),
        (''Nh6'', ''n'', ''rnbqkb1r/ppp1pppp/7n/3P4/8/8/PPPP1PPP/RNBQKBNR w KQkq - 1 3''),
        (''Nf6'', ''n'', ''rnbqkb1r/ppp1pppp/5n2/3P4/8/8/PPPP1PPP/RNBQKBNR w KQkq - 1 3''),
        (''a6'', ''n'', ''rnbqkbnr/1pp1pppp/p7/3P4/8/8/PPPP1PPP/RNBQKBNR w KQkq - 0 3''),
        (''a5'', ''b'', ''rnbqkbnr/1pp1pppp/8/p2P4/8/8/PPPP1PPP/RNBQKBNR w KQkq - 0 3''),
        (''b6'', ''n'', ''rnbqkbnr/p1p1pppp/1p6/3P4/8/8/PPPP1PPP/RNBQKBNR w KQkq - 0 3''),
        (''b5'', ''b'', ''rnbqkbnr/p1p1pppp/8/1p1P4/8/8/PPPP1PPP/RNBQKBNR w KQkq - 0 3''),
        (''c6'', ''n'', ''rnbqkbnr/pp2pppp/2p5/3P4/8/8/PPPP1PPP/RNBQKBNR w KQkq - 0 3''),
        (''c5'', ''b'', ''rnbqkbnr/pp2pppp/8/2pP4/8/8/PPPP1PPP/RNBQKBNR w KQkq c6 0 3''),
        (''e6'', ''n'', ''rnbqkbnr/ppp2ppp/4p3/3P4/8/8/PPPP1PPP/RNBQKBNR w KQkq - 0 3''),
        (''e5'', ''b'', ''rnbqkbnr/ppp2ppp/8/3Pp3/8/8/PPPP1PPP/RNBQKBNR w KQkq e6 0 3''),
        (''f6'', ''n'', ''rnbqkbnr/ppp1p1pp/5p2/3P4/8/8/PPPP1PPP/RNBQKBNR w KQkq - 0 3''),
        (''f5'', ''b'', ''rnbqkbnr/ppp1p1pp/8/3P1p2/8/8/PPPP1PPP/RNBQKBNR w KQkq - 0 3''),
        (''g6'', ''n'', ''rnbqkbnr/ppp1pp1p/6p1/3P4/8/8/PPPP1PPP/RNBQKBNR w KQkq - 0 3''),
        (''g5'', ''b'', ''rnbqkbnr/ppp1pp1p/8/3P2p1/8/8/PPPP1PPP/RNBQKBNR w KQkq - 0 3''),
        (''h6'', ''n'', ''rnbqkbnr/ppp1ppp1/7p/3P4/8/8/PPPP1PPP/RNBQKBNR w KQkq - 0 3''),
        (''h5'', ''b'', ''rnbqkbnr/ppp1ppp1/8/3P3p/8/8/PPPP1PPP/RNBQKBNR w KQkq - 0 3'')]"

definition line_moves_4 :: "(string \<times> string \<times> string) list" where
  "line_moves_4 =
       [(''d6'', ''n'', ''rnbqkb1r/ppp1pppp/3P1n2/8/8/8/PPPP1PPP/RNBQKBNR b KQkq - 0 3''),
        (''a3'', ''n'', ''rnbqkb1r/ppp1pppp/5n2/3P4/8/P7/1PPP1PPP/RNBQKBNR b KQkq - 0 3''),
        (''a4'', ''b'', ''rnbqkb1r/ppp1pppp/5n2/3P4/P7/8/1PPP1PPP/RNBQKBNR b KQkq - 0 3''),
        (''b3'', ''n'', ''rnbqkb1r/ppp1pppp/5n2/3P4/8/1P6/P1PP1PPP/RNBQKBNR b KQkq - 0 3''),
        (''b4'', ''b'', ''rnbqkb1r/ppp1pppp/5n2/3P4/1P6/8/P1PP1PPP/RNBQKBNR b KQkq - 0 3''),
        (''c3'', ''n'', ''rnbqkb1r/ppp1pppp/5n2/3P4/8/2P5/PP1P1PPP/RNBQKBNR b KQkq - 0 3''),
        (''c4'', ''b'', ''rnbqkb1r/ppp1pppp/5n2/3P4/2P5/8/PP1P1PPP/RNBQKBNR b KQkq - 0 3''),
        (''d3'', ''n'', ''rnbqkb1r/ppp1pppp/5n2/3P4/8/3P4/PPP2PPP/RNBQKBNR b KQkq - 0 3''),
        (''d4'', ''b'', ''rnbqkb1r/ppp1pppp/5n2/3P4/3P4/8/PPP2PPP/RNBQKBNR b KQkq - 0 3''),
        (''f3'', ''n'', ''rnbqkb1r/ppp1pppp/5n2/3P4/8/5P2/PPPP2PP/RNBQKBNR b KQkq - 0 3''),
        (''f4'', ''b'', ''rnbqkb1r/ppp1pppp/5n2/3P4/5P2/8/PPPP2PP/RNBQKBNR b KQkq - 0 3''),
        (''g3'', ''n'', ''rnbqkb1r/ppp1pppp/5n2/3P4/8/6P1/PPPP1P1P/RNBQKBNR b KQkq - 0 3''),
        (''g4'', ''b'', ''rnbqkb1r/ppp1pppp/5n2/3P4/6P1/8/PPPP1P1P/RNBQKBNR b KQkq - 0 3''),
        (''h3'', ''n'', ''rnbqkb1r/ppp1pppp/5n2/3P4/8/7P/PPPP1PP1/RNBQKBNR b KQkq - 0 3''),
        (''h4'', ''b'', ''rnbqkb1r/ppp1pppp/5n2/3P4/7P/8/PPPP1PP1/RNBQKBNR b KQkq - 0 3''),
        (''Na3'', ''n'', ''rnbqkb1r/ppp1pppp/5n2/3P4/8/N7/PPPP1PPP/R1BQKBNR b KQkq - 2 3''),
        (''Nc3'', ''n'', ''rnbqkb1r/ppp1pppp/5n2/3P4/8/2N5/PPPP1PPP/R1BQKBNR b KQkq - 2 3''),
        (''Qe2'', ''n'', ''rnbqkb1r/ppp1pppp/5n2/3P4/8/8/PPPPQPPP/RNB1KBNR b KQkq - 2 3''),
        (''Qf3'', ''n'', ''rnbqkb1r/ppp1pppp/5n2/3P4/8/5Q2/PPPP1PPP/RNB1KBNR b KQkq - 2 3''),
        (''Qg4'', ''n'', ''rnbqkb1r/ppp1pppp/5n2/3P4/6Q1/8/PPPP1PPP/RNB1KBNR b KQkq - 2 3''),
        (''Qh5'', ''n'', ''rnbqkb1r/ppp1pppp/5n2/3P3Q/8/8/PPPP1PPP/RNB1KBNR b KQkq - 2 3''),
        (''Ke2'', ''n'', ''rnbqkb1r/ppp1pppp/5n2/3P4/8/8/PPPPKPPP/RNBQ1BNR b kq - 2 3''),
        (''Be2'', ''n'', ''rnbqkb1r/ppp1pppp/5n2/3P4/8/8/PPPPBPPP/RNBQK1NR b KQkq - 2 3''),
        (''Bd3'', ''n'', ''rnbqkb1r/ppp1pppp/5n2/3P4/8/3B4/PPPP1PPP/RNBQK1NR b KQkq - 2 3''),
        (''Bc4'', ''n'', ''rnbqkb1r/ppp1pppp/5n2/3P4/2B5/8/PPPP1PPP/RNBQK1NR b KQkq - 2 3''),
        (''Bb5+'', ''n'', ''rnbqkb1r/ppp1pppp/5n2/1B1P4/8/8/PPPP1PPP/RNBQK1NR b KQkq - 2 3''),
        (''Ba6'', ''n'', ''rnbqkb1r/ppp1pppp/B4n2/3P4/8/8/PPPP1PPP/RNBQK1NR b KQkq - 2 3''),
        (''Ne2'', ''n'', ''rnbqkb1r/ppp1pppp/5n2/3P4/8/8/PPPPNPPP/RNBQKB1R b KQkq - 2 3''),
        (''Nf3'', ''n'', ''rnbqkb1r/ppp1pppp/5n2/3P4/8/5N2/PPPP1PPP/RNBQKB1R b KQkq - 2 3''),
        (''Nh3'', ''n'', ''rnbqkb1r/ppp1pppp/5n2/3P4/8/7N/PPPP1PPP/RNBQKB1R b KQkq - 2 3'')]"

definition line_moves_5 :: "(string \<times> string \<times> string) list" where
  "line_moves_5 =
       [(''Nbd7'', ''n'', ''r1bqkb1r/pppnpppp/5n2/3P4/8/2N5/PPPP1PPP/R1BQKBNR w KQkq - 3 4''),
        (''Nc6'', ''n'', ''r1bqkb1r/ppp1pppp/2n2n2/3P4/8/2N5/PPPP1PPP/R1BQKBNR w KQkq - 3 4''),
        (''Na6'', ''n'', ''r1bqkb1r/ppp1pppp/n4n2/3P4/8/2N5/PPPP1PPP/R1BQKBNR w KQkq - 3 4''),
        (''Bd7'', ''n'', ''rn1qkb1r/pppbpppp/5n2/3P4/8/2N5/PPPP1PPP/R1BQKBNR w KQkq - 3 4''),
        (''Be6'', ''n'', ''rn1qkb1r/ppp1pppp/4bn2/3P4/8/2N5/PPPP1PPP/R1BQKBNR w KQkq - 3 4''),
        (''Bf5'', ''n'', ''rn1qkb1r/ppp1pppp/5n2/3P1b2/8/2N5/PPPP1PPP/R1BQKBNR w KQkq - 3 4''),
        (''Bg4'', ''n'', ''rn1qkb1r/ppp1pppp/5n2/3P4/6b1/2N5/PPPP1PPP/R1BQKBNR w KQkq - 3 4''),
        (''Bh3'', ''n'', ''rn1qkb1r/ppp1pppp/5n2/3P4/8/2N4b/PPPP1PPP/R1BQKBNR w KQkq - 3 4''),
        (''Qd7'', ''n'', ''rnb1kb1r/pppqpppp/5n2/3P4/8/2N5/PPPP1PPP/R1BQKBNR w KQkq - 3 4''),
        (''Qd6'', ''n'', ''rnb1kb1r/ppp1pppp/3q1n2/3P4/8/2N5/PPPP1PPP/R1BQKBNR w KQkq - 3 4''),
        (''Qxd5'', ''c'', ''rnb1kb1r/ppp1pppp/5n2/3q4/8/2N5/PPPP1PPP/R1BQKBNR w KQkq - 0 4''),
        (''Kd7'', ''n'', ''rnbq1b1r/pppkpppp/5n2/3P4/8/2N5/PPPP1PPP/R1BQKBNR w KQ - 3 4''),
        (''Rg8'', ''n'', ''rnbqkbr1/ppp1pppp/5n2/3P4/8/2N5/PPPP1PPP/R1BQKBNR w KQq - 3 4''),
        (''a6'', ''n'', ''rnbqkb1r/1pp1pppp/p4n2/3P4/8/2N5/PPPP1PPP/R1BQKBNR w KQkq - 0 4''),
        (''a5'', ''b'', ''rnbqkb1r/1pp1pppp/5n2/p2P4/8/2N5/PPPP1PPP/R1BQKBNR w KQkq - 0 4''),
        (''b6'', ''n'', ''rnbqkb1r/p1p1pppp/1p3n2/3P4/8/2N5/PPPP1PPP/R1BQKBNR w KQkq - 0 4''),
        (''b5'', ''b'', ''rnbqkb1r/p1p1pppp/5n2/1p1P4/8/2N5/PPPP1PPP/R1BQKBNR w KQkq - 0 4''),
        (''c6'', ''n'', ''rnbqkb1r/pp2pppp/2p2n2/3P4/8/2N5/PPPP1PPP/R1BQKBNR w KQkq - 0 4''),
        (''c5'', ''b'', ''rnbqkb1r/pp2pppp/5n2/2pP4/8/2N5/PPPP1PPP/R1BQKBNR w KQkq c6 0 4''),
        (''e6'', ''n'', ''rnbqkb1r/ppp2ppp/4pn2/3P4/8/2N5/PPPP1PPP/R1BQKBNR w KQkq - 0 4''),
        (''e5'', ''b'', ''rnbqkb1r/ppp2ppp/5n2/3Pp3/8/2N5/PPPP1PPP/R1BQKBNR w KQkq e6 0 4''),
        (''g6'', ''n'', ''rnbqkb1r/ppp1pp1p/5np1/3P4/8/2N5/PPPP1PPP/R1BQKBNR w KQkq - 0 4''),
        (''g5'', ''b'', ''rnbqkb1r/ppp1pp1p/5n2/3P2p1/8/2N5/PPPP1PPP/R1BQKBNR w KQkq - 0 4''),
        (''h6'', ''n'', ''rnbqkb1r/ppp1ppp1/5n1p/3P4/8/2N5/PPPP1PPP/R1BQKBNR w KQkq - 0 4''),
        (''h5'', ''b'', ''rnbqkb1r/ppp1ppp1/5n2/3P3p/8/2N5/PPPP1PPP/R1BQKBNR w KQkq - 0 4''),
        (''Nfd7'', ''n'', ''rnbqkb1r/pppnpppp/8/3P4/8/2N5/PPPP1PPP/R1BQKBNR w KQkq - 3 4''),
        (''Ng8'', ''n'', ''rnbqkbnr/ppp1pppp/8/3P4/8/2N5/PPPP1PPP/R1BQKBNR w KQkq - 3 4''),
        (''Nh5'', ''n'', ''rnbqkb1r/ppp1pppp/8/3P3n/8/2N5/PPPP1PPP/R1BQKBNR w KQkq - 3 4''),
        (''Ng4'', ''n'', ''rnbqkb1r/ppp1pppp/8/3P4/6n1/2N5/PPPP1PPP/R1BQKBNR w KQkq - 3 4''),
        (''Ne4'', ''n'', ''rnbqkb1r/ppp1pppp/8/3P4/4n3/2N5/PPPP1PPP/R1BQKBNR w KQkq - 3 4''),
        (''Nxd5'', ''c'', ''rnbqkb1r/ppp1pppp/8/3n4/8/2N5/PPPP1PPP/R1BQKBNR w KQkq - 0 4'')]"

definition line_moves_6 :: "(string \<times> string \<times> string) list" where
  "line_moves_6 =
       [(''Na4'', ''n'', ''rnbqkb1r/ppp1pppp/8/3n4/N7/8/PPPP1PPP/R1BQKBNR b KQkq - 1 4''),
        (''Nb5'', ''n'', ''rnbqkb1r/ppp1pppp/8/1N1n4/8/8/PPPP1PPP/R1BQKBNR b KQkq - 1 4''),
        (''Nxd5'', ''c'', ''rnbqkb1r/ppp1pppp/8/3N4/8/8/PPPP1PPP/R1BQKBNR b KQkq - 0 4''),
        (''Ne4'', ''n'', ''rnbqkb1r/ppp1pppp/8/3n4/4N3/8/PPPP1PPP/R1BQKBNR b KQkq - 1 4''),
        (''Nce2'', ''n'', ''rnbqkb1r/ppp1pppp/8/3n4/8/8/PPPPNPPP/R1BQKBNR b KQkq - 1 4''),
        (''Nb1'', ''n'', ''rnbqkb1r/ppp1pppp/8/3n4/8/8/PPPP1PPP/RNBQKBNR b KQkq - 1 4''),
        (''a3'', ''n'', ''rnbqkb1r/ppp1pppp/8/3n4/8/P1N5/1PPP1PPP/R1BQKBNR b KQkq - 0 4''),
        (''a4'', ''b'', ''rnbqkb1r/ppp1pppp/8/3n4/P7/2N5/1PPP1PPP/R1BQKBNR b KQkq - 0 4''),
        (''b3'', ''n'', ''rnbqkb1r/ppp1pppp/8/3n4/8/1PN5/P1PP1PPP/R1BQKBNR b KQkq - 0 4''),
        (''b4'', ''b'', ''rnbqkb1r/ppp1pppp/8/3n4/1P6/2N5/P1PP1PPP/R1BQKBNR b KQkq - 0 4''),
        (''d3'', ''n'', ''rnbqkb1r/ppp1pppp/8/3n4/8/2NP4/PPP2PPP/R1BQKBNR b KQkq - 0 4''),
        (''d4'', ''b'', ''rnbqkb1r/ppp1pppp/8/3n4/3P4/2N5/PPP2PPP/R1BQKBNR b KQkq - 0 4''),
        (''f3'', ''n'', ''rnbqkb1r/ppp1pppp/8/3n4/8/2N2P2/PPPP2PP/R1BQKBNR b KQkq - 0 4''),
        (''f4'', ''b'', ''rnbqkb1r/ppp1pppp/8/3n4/5P2/2N5/PPPP2PP/R1BQKBNR b KQkq - 0 4''),
        (''g3'', ''n'', ''rnbqkb1r/ppp1pppp/8/3n4/8/2N3P1/PPPP1P1P/R1BQKBNR b KQkq - 0 4''),
        (''g4'', ''b'', ''rnbqkb1r/ppp1pppp/8/3n4/6P1/2N5/PPPP1P1P/R1BQKBNR b KQkq - 0 4''),
        (''h3'', ''n'', ''rnbqkb1r/ppp1pppp/8/3n4/8/2N4P/PPPP1PP1/R1BQKBNR b KQkq - 0 4''),
        (''h4'', ''b'', ''rnbqkb1r/ppp1pppp/8/3n4/7P/2N5/PPPP1PP1/R1BQKBNR b KQkq - 0 4''),
        (''Rb1'', ''n'', ''rnbqkb1r/ppp1pppp/8/3n4/8/2N5/PPPP1PPP/1RBQKBNR b Kkq - 1 4''),
        (''Qe2'', ''n'', ''rnbqkb1r/ppp1pppp/8/3n4/8/2N5/PPPPQPPP/R1B1KBNR b KQkq - 1 4''),
        (''Qf3'', ''n'', ''rnbqkb1r/ppp1pppp/8/3n4/8/2N2Q2/PPPP1PPP/R1B1KBNR b KQkq - 1 4''),
        (''Qg4'', ''n'', ''rnbqkb1r/ppp1pppp/8/3n4/6Q1/2N5/PPPP1PPP/R1B1KBNR b KQkq - 1 4''),
        (''Qh5'', ''n'', ''rnbqkb1r/ppp1pppp/8/3n3Q/8/2N5/PPPP1PPP/R1B1KBNR b KQkq - 1 4''),
        (''Ke2'', ''n'', ''rnbqkb1r/ppp1pppp/8/3n4/8/2N5/PPPPKPPP/R1BQ1BNR b kq - 1 4''),
        (''Be2'', ''n'', ''rnbqkb1r/ppp1pppp/8/3n4/8/2N5/PPPPBPPP/R1BQK1NR b KQkq - 1 4''),
        (''Bd3'', ''n'', ''rnbqkb1r/ppp1pppp/8/3n4/8/2NB4/PPPP1PPP/R1BQK1NR b KQkq - 1 4''),
        (''Bc4'', ''n'', ''rnbqkb1r/ppp1pppp/8/3n4/2B5/2N5/PPPP1PPP/R1BQK1NR b KQkq - 1 4''),
        (''Bb5+'', ''n'', ''rnbqkb1r/ppp1pppp/8/1B1n4/8/2N5/PPPP1PPP/R1BQK1NR b KQkq - 1 4''),
        (''Ba6'', ''n'', ''rnbqkb1r/ppp1pppp/B7/3n4/8/2N5/PPPP1PPP/R1BQK1NR b KQkq - 1 4''),
        (''Nge2'', ''n'', ''rnbqkb1r/ppp1pppp/8/3n4/8/2N5/PPPPNPPP/R1BQKB1R b KQkq - 1 4''),
        (''Nf3'', ''n'', ''rnbqkb1r/ppp1pppp/8/3n4/8/2N2N2/PPPP1PPP/R1BQKB1R b KQkq - 1 4''),
        (''Nh3'', ''n'', ''rnbqkb1r/ppp1pppp/8/3n4/8/2N4N/PPPP1PPP/R1BQKB1R b KQkq - 1 4'')]"

definition ref_moves :: "string \<Rightarrow> (string \<times> string \<times> string) list" where
  \<comment> \<open>the legal moves of a position: SAN, flags, position after the move\<close>
  "ref_moves f =
     (if f = start_fen then start_moves
      else if f = line_fen_1 then line_moves_1
      else if f = line_fen_2 then line_moves_2
      else if f = line_fen_3 then line_moves_3
      else if f = line_fen_4 then line_moves_4
      else if f = line_fen_5 then line_moves_5
      else if f = line_fen_6 then line_moves_6
      else if f = fork_fen then fork_moves
      else if f = rook_fen then rook_moves
      else [])"

definition ref_play :: "string \<Rightarrow> string \<Rightarrow> string option" where
  "ref_play f m = map_option snd (map_of (ref_moves f) m)"

definition ref_engine :: "string rules" where
  "ref_engine =
     \<lparr>start_pos = start_fen,
      load_fen = Some,
      fen_of = (\<lambda>f. f),
      turn_of = ref_turn,
      board_of = ref_board,
      get_piece = ref_get,
      legal_moves = (\<lambda>f. map (\<lambda>(s, fl, a). \<lparr>san = s, flags = fl\<rparr>) (ref_moves f)),
      play_san = ref_play,
      play_move = (\<lambda>f mv. ref_play f (san mv)),
      attacked = ref_attacked\<rparr>"

definition header_line :: "string \<Rightarrow> string \<Rightarrow> string" where
  \<comment> \<open>the text of one header tag, \<open>[Key "Value"]\<close>\<close>
  "header_line k v = ''['' @ k @ '' '' @ [CHR 0x22] @ v @ [CHR 0x22] @ '']''"

definition start_board :: "string chess" where
  "start_board = \<lparr>cur = start_fen, history = []\<rparr>"

definition fork_board :: "string chess" where
  "fork_board = \<lparr>cur = fork_fen, history = []\<rparr>"

definition rook_board :: "string chess" where
  "rook_board = \<lparr>cur = rook_fen, history = []\<rparr>"

definition after_fork :: "string chess" where
  \<comment> \<open>the board after the knight has moved from d5 to c7 in the fork position\<close>
  "after_fork = \<lparr>cur = ''r3k3/2N5/8/8/8/8/8/4K3 b - - 1 1'', history = [fork_fen]\<rparr>"



definition after_e4 :: "string chess" where
  \<comment> \<open>the board after \<open>1. e4\<close>\<close>
  "after_e4 = \<lparr>cur = ''rnbqkbnr/pppppppp/8/8/4P3/8/PPPP1PPP/RNBQKBNR b KQkq - 0 1'',
               history = [start_fen]\<rparr>"


definition first_state :: "string game_state" where
  \<comment> \<open>the state in which the loop of \<open>runGameAnalysis\<close> starts\<close>
  "first_state =
     \<lparr>gs_chess = start_board, gs_engine = start_board, gs_blunders = 0, gs_mistakes = 0,
      gs_inaccuracies = 0, gs_keyMoments = [], gs_totalMoves = 0, gs_goodMoves = 0\<rparr>"

definition token :: "string \<Rightarrow> ChessMove" where
  \<comment> \<open>a move as the parser records it\<close>
  "token m = \<lparr>move = m, evaluation = None, position = None, comment = None\<rparr>"

definition no_network :: ai_env where
  \<comment> \<open>every call of the AI service fails\<close>
  "no_network =
     \<lparr>reply_game = None, reply_tactics = None, reply_openings = None,
      reply_fundamentals = None, in_time = True\<rparr>"

definition empty_replies :: ai_env where
  \<comment> \<open>every call of the AI service answers in time with the JSON object \<open>{}\<close>\<close>
  "empty_replies =
     \<lparr>reply_game = Some (JObj []), reply_tactics = Some (JObj []),
      reply_openings = Some (JObj []), reply_fundamentals = Some (JObj []),
      in_time = True\<rparr>"

section \<open>The pipelines in the words of the specification\<close>

text \<open>
  The definitions of this section are not translations of functions of the code. They
  say, in the words of the specification, what the pipelines compute: the value of a
  candidate move, the replay of a game and the moves of the user in it, \<open>evalDiff\<close>, the
  boards that are scored, the opponent's pieces a move attacks. The theorems below
  compare them with the loops.
\<close>

definition candidate_eval :: "'p rules \<Rightarrow> 'p chess \<Rightarrow> vmove \<Rightarrow> int" where
  \<comment> \<open>one-ply negamax value of a candidate: the negated material evaluation of the
      position the move leads to (0 for a move that does not apply)\<close>
  "candidate_eval E eng mv =
     (case move_obj E eng mv of Inl e \<Rightarrow> 0 | Inr eng1 \<Rightarrow> - evaluateMaterial E eng1)"




definition best_evaluation :: "'p rules \<Rightarrow> 'p \<Rightarrow> int" where
  \<comment> \<open>\<open>bestMove.evaluation\<close>, the best move being asked for on the position; it is never
      \<open>-Infinity\<close>\<close>
  "best_evaluation E p =
     (case bm_evaluation (fst (getBestMove E \<lparr>cur = p, history = []\<rparr>)) of
        Some v \<Rightarrow> v
      | None \<Rightarrow> 0)"

definition after_evaluation :: "'p rules \<Rightarrow> 'p \<Rightarrow> int" where
  \<comment> \<open>the evaluation of a position by the evaluator\<close>
  "after_evaluation E p = evaluate E \<lparr>cur = p, history = []\<rparr>"

definition evalDiff :: "'p rules \<Rightarrow> 'p \<Rightarrow> 'p \<Rightarrow> int" where
  \<comment> \<open>\<open>|bestMove.evaluation - afterMoveEvaluation|\<close> of a move, from the position before
      it and the position after it\<close>
  "evalDiff E before after = \<bar>best_evaluation E before - after_evaluation E after\<bar>"




definition attacked_by_mover :: "'p rules \<Rightarrow> 'p chess \<Rightarrow> nat" where
  \<comment> \<open>after a move: the number of pieces of the opponent of the player who has just
      moved (the side now to move) that the player who has just moved attacks\<close>
  "attacked_by_mover E c =
     (let opponent = turn E c;
          mover = (if opponent = W then B else W)
      in length (filter (\<lambda>(row, col).
                           case board E c row col of
                             None \<Rightarrow> False
                           | Some pc \<Rightarrow> pcolor pc = opponent
                               \<and> attacked E (cur c) (square_name row col) mover)
                   squares))"

section \<open>Auxiliary definitions of the proofs\<close>







fun pick :: "(string \<times> int) list \<Rightarrow> BestMove \<Rightarrow> BestMove" where
  \<comment> \<open>the search of \<open>getBestMove\<close> over the candidates' names and values\<close>
  "pick [] b = b"
| "pick (x # xs) b =
     pick xs (if better (snd x) (bm_evaluation b)
              then \<lparr>bm_move = fst x, bm_evaluation = Some (snd x)\<rparr> else b)"

definition first_max :: "(string \<times> int) list \<Rightarrow> nat \<Rightarrow> bool" where
  \<comment> \<open>position \<open>k\<close> holds the largest value, and no earlier position holds it\<close>
  "first_max xs k =
     (k < length xs \<and> (\<forall>j<length xs. snd (xs ! j) \<le> snd (xs ! k))
      \<and> (\<forall>j<k. snd (xs ! j) < snd (xs ! k)))"

section \<open>The parser: properties\<close>

text \<open>
  Claim C7. \<open>parsePgn\<close> applied to \<open>1. e4 e5 2. Nf3 Nc6 3. Bb5 *\<close> yields the moves
  \<open>e4\<close>, \<open>e5\<close>, \<open>Nf3\<close>, \<open>Nc6\<close>, \<open>Bb5\<close> in this order: the result token at the end is
  stripped, then the move numbers, the rest is split on white space, and the tokens with
  an alphanumeric character are kept.
\<close>

theorem parsePgn_round_trip:
  "strip_result ''1. e4 e5 2. Nf3 Nc6 3. Bb5 *'' = ''1. e4 e5 2. Nf3 Nc6 3. Bb5''
   \<and> strip_move_numbers ''1. e4 e5 2. Nf3 Nc6 3. Bb5'' = ''e4 e5 Nf3 Nc6 Bb5''
   \<and> split_ws ''e4 e5 Nf3 Nc6 Bb5'' = [''e4'', ''e5'', ''Nf3'', ''Nc6'', ''Bb5'']
   \<and> map move (moves (parsePgn ''1. e4 e5 2. Nf3 Nc6 3. Bb5 *''))
       = [''e4'', ''e5'', ''Nf3'', ''Nc6'', ''Bb5'']"
  by code_simp

lemma parse_date_defined:
  "(parse_date d \<noteq> None) =
     (\<exists>text p0 p1 p2 y m dd. d = Some text \<and> split_on CHR ''.'' text = [p0, p1, p2]
        \<and> parseInt p0 = Some y \<and> parseInt p1 = Some m \<and> parseInt p2 = Some dd)"
  by (auto simp: parse_date_def Let_def split: option.splits list.splits)

text \<open>
  Claim C8. \<open>extractBasicInfo\<close> is a total function of the text: none of its operations
  throws. Its date is defined exactly when the game has a Date header whose value splits
  on the dot into three parts on each of which \<open>parseInt\<close> yields a number. The header
  \<open>[Date "2024.03.15"]\<close> gives the date built from year 2024, month index 2 (March) and
  day 15; the header \<open>[Date "????.??.??"]\<close> gives no date.
\<close>

theorem extractBasicInfo_date:
  "(info_date (extractBasicInfo pgn) \<noteq> None) =
     (\<exists>text p0 p1 p2 y m dd. date (parsePgn pgn) = Some text
        \<and> split_on CHR ''.'' text = [p0, p1, p2]
        \<and> parseInt p0 = Some y \<and> parseInt p1 = Some m \<and> parseInt p2 = Some dd)
   \<and> info_date (extractBasicInfo (header_line ''Date'' ''2024.03.15''))
       = Some (NewDate 2024 2 15)
   \<and> info_date (extractBasicInfo (header_line ''Date'' ''????.??.??'')) = None"
proof -
  have a: "(info_date (extractBasicInfo pgn) \<noteq> None) =
     (\<exists>text p0 p1 p2 y m dd. date (parsePgn pgn) = Some text
        \<and> split_on CHR ''.'' text = [p0, p1, p2]
        \<and> parseInt p0 = Some y \<and> parseInt p1 = Some m \<and> parseInt p2 = Some dd)"
    using parse_date_defined [of "date (parsePgn pgn)"]
    by (simp add: extractBasicInfo_def Let_def)
  have b: "info_date (extractBasicInfo (header_line ''Date'' ''2024.03.15''))
             = Some (NewDate 2024 2 15)"
    by code_simp
  have c: "info_date (extractBasicInfo (header_line ''Date'' ''????.??.??'')) = None"
    by code_simp
  from a b c show ?thesis by simp
qed

text \<open>
  Claim C10. When the White header and the Black header both equal the user name up to
  case, \<open>determineUserColor\<close> answers \<open>white\<close>: the White header is tested first.
\<close>

theorem determineUserColor_both_headers:
  "white parsedGame = Some w \<Longrightarrow> black parsedGame = Some b
   \<Longrightarrow> toLowerCase w = toLowerCase username \<Longrightarrow> toLowerCase b = toLowerCase username
   \<Longrightarrow> determineUserColor parsedGame username = ''white''"
  by (simp add: determineUserColor_def)

theorem determineUserColor_both_headers_witness:
  "white (parsePgn (header_line ''White'' ''Bob'' @ header_line ''Black'' ''BOB''))
     = Some ''Bob''
   \<and> black (parsePgn (header_line ''White'' ''Bob'' @ header_line ''Black'' ''BOB''))
       = Some ''BOB''
   \<and> toLowerCase ''Bob'' = toLowerCase ''bob''
   \<and> toLowerCase ''BOB'' = toLowerCase ''bob''
   \<and> determineUserColor
        (parsePgn (header_line ''White'' ''Bob'' @ header_line ''Black'' ''BOB'')) ''bob''
       = ''white''"
proof -
  have w: "white (parsePgn (header_line ''White'' ''Bob'' @ header_line ''Black'' ''BOB''))
             = Some ''Bob''"
    by code_simp
  have b: "black (parsePgn (header_line ''White'' ''Bob'' @ header_line ''Black'' ''BOB''))
             = Some ''BOB''"
    by code_simp
  have lw: "toLowerCase ''Bob'' = toLowerCase ''bob''" by code_simp
  have lb: "toLowerCase ''BOB'' = toLowerCase ''bob''" by code_simp
  from determineUserColor_both_headers [OF w b lw lb] w b lw lb show ?thesis by simp
qed

section \<open>Probing leaves the board as it was\<close>

lemma undo_move_obj: "move_obj E c mv = Inr c1 \<Longrightarrow> undo c1 = c"
  by (auto simp: move_obj_def undo_def split: option.splits)

lemma fork_loop_board: "snd (fork_loop E c ms) = c"
proof (induction ms)
  case Nil
  show ?case by simp
next
  case (Cons mv ms)
  show ?case
  proof (cases "move_obj E c mv")
    case (Inl e)
    then show ?thesis by simp
  next
    case (Inr c1)
    then have "undo c1 = c" by (rule undo_move_obj)
    with Inr Cons show ?thesis by (simp add: Let_def)
  qed
qed

lemma pin_loop_board: "snd (pin_loop E c ms) = c"
proof (induction ms)
  case Nil
  show ?case by simp
next
  case (Cons mv ms)
  show ?case
  proof (cases "move_obj E c mv")
    case (Inl e)
    with Cons show ?thesis by simp
  next
    case (Inr c1)
    then have "undo c1 = c" by (rule undo_move_obj)
    with Inr Cons show ?thesis by (simp add: Let_def)
  qed
qed

text \<open>
  Claim C5. \<open>findTactics\<close> returns with the board it was called on, position and move
  stack alike, and so with the same FEN: whether it reports a fork, a pin or skewer, or no
  tactic, and also when a probing move throws. Every move it makes is undone before the
  next one and before it returns.
\<close>

theorem findTactics_leaves_board:
  "snd (findTactics E c) = c \<and> fen_string E (snd (findTactics E c)) = fen_string E c"
proof -
  have f: "\<And>ms. \<exists>r. fork_loop E c ms = (r, c)"
    using fork_loop_board [of E c] by (metis prod.collapse)
  have p: "\<And>ms. \<exists>r. pin_loop E c ms = (r, c)"
    using pin_loop_board [of E c] by (metis prod.collapse)
  obtain r1 where r1: "fork_loop E c (legal_moves E (cur c)) = (r1, c)" using f by blast
  obtain r2 where r2: "pin_loop E c (legal_moves E (cur c)) = (r2, c)" using p by blast
  have "snd (findTactics E c) = c"
    using r1 r2 by (simp add: findTactics_def Let_def split: sum.splits option.splits)
  then show ?thesis by simp
qed

section \<open>The evaluator: properties\<close>

lemma best_loop_board: "snd (best_loop E eng ms b) = eng"
proof (induction ms arbitrary: b)
  case Nil
  show ?case by simp
next
  case (Cons mv ms)
  show ?case
  proof (cases "move_obj E eng mv")
    case (Inl e)
    then show ?thesis by simp
  next
    case (Inr eng1)
    then have "undo eng1 = eng" by (rule undo_move_obj)
    with Inr Cons show ?thesis by (simp add: Let_def)
  qed
qed

lemma getBestMove_board: "snd (getBestMove E eng) = eng"
proof -
  obtain r where "best_loop E eng (legal_moves E (cur eng)) \<lparr>bm_move = [], bm_evaluation = None\<rparr> = (r, eng)"
    using best_loop_board [of E eng] by (metis prod.collapse)
  then show ?thesis by (simp add: getBestMove_def Let_def split: sum.splits)
qed


lemma best_loop_pick:
  "\<forall>mv\<in>set ms. play_move E (cur eng) mv \<noteq> None \<Longrightarrow>
   best_loop E eng ms b = (Inr (pick (map (\<lambda>mv. (san mv, candidate_eval E eng mv)) ms) b), eng)"
proof (induction ms arbitrary: b)
  case Nil
  show ?case by simp
next
  case (Cons mv ms)
  from Cons.prems obtain eng1 where m: "move_obj E eng mv = Inr eng1"
    by (auto simp: move_obj_def split: option.splits)
  then have u: "undo eng1 = eng" by (rule undo_move_obj)
  have ce: "candidate_eval E eng mv = - evaluate E eng1"
    using m by (simp add: candidate_eval_def evaluate_def)
  from Cons.prems have rest: "\<forall>mv\<in>set ms. play_move E (cur eng) mv \<noteq> None" by simp
  show ?case using m u ce Cons.IH [OF rest] by (simp add: Let_def)
qed

lemma first_max_zero:
  "\<forall>x\<in>set xs. snd x \<le> snd x0 \<Longrightarrow> first_max (x0 # xs) 0"
  by (auto simp: first_max_def nth_Cons')

lemma first_max_Suc:
  "first_max xs k \<Longrightarrow> snd x0 < snd (xs ! k) \<Longrightarrow> first_max (x0 # xs) (Suc k)"
  by (auto simp: first_max_def nth_Cons' less_Suc_eq_0_disj)

lemma pick_some:
  "bm_evaluation b = Some w \<Longrightarrow>
   ((\<forall>x\<in>set xs. snd x \<le> w) \<and> pick xs b = b)
   \<or> (\<exists>k. first_max xs k \<and> w < snd (xs ! k)
          \<and> pick xs b = \<lparr>bm_move = fst (xs ! k), bm_evaluation = Some (snd (xs ! k))\<rparr>)"
proof (induction xs arbitrary: b w)
  case Nil
  then show ?case by simp
next
  case (Cons x xs)
  show ?case
  proof (cases "w < snd x")
    case True
    define b1 where "b1 = \<lparr>bm_move = fst x, bm_evaluation = Some (snd x)\<rparr>"
    have p: "pick (x # xs) b = pick xs b1"
      using True Cons.prems by (simp add: better_def b1_def)
    have e: "bm_evaluation b1 = Some (snd x)" by (simp add: b1_def)
    from Cons.IH [OF e] show ?thesis
    proof
      assume a: "(\<forall>y\<in>set xs. snd y \<le> snd x) \<and> pick xs b1 = b1"
      then have "first_max (x # xs) 0" using first_max_zero by blast
      with a p True show ?thesis unfolding b1_def by (intro disjI2 exI [of _ 0]) simp
    next
      assume "\<exists>k. first_max xs k \<and> snd x < snd (xs ! k)
          \<and> pick xs b1 = \<lparr>bm_move = fst (xs ! k), bm_evaluation = Some (snd (xs ! k))\<rparr>"
      then obtain k where k: "first_max xs k" "snd x < snd (xs ! k)"
         "pick xs b1 = \<lparr>bm_move = fst (xs ! k), bm_evaluation = Some (snd (xs ! k))\<rparr>"
        by blast
      have "first_max (x # xs) (Suc k)" using k(1,2) by (rule first_max_Suc)
      with k p True show ?thesis by (intro disjI2 exI [of _ "Suc k"]) simp
    qed
  next
    case False
    have p: "pick (x # xs) b = pick xs b" using False Cons.prems by (simp add: better_def)
    from Cons.IH [OF Cons.prems] show ?thesis
    proof
      assume "(\<forall>y\<in>set xs. snd y \<le> w) \<and> pick xs b = b"
      with p False show ?thesis by auto
    next
      assume "\<exists>k. first_max xs k \<and> w < snd (xs ! k)
          \<and> pick xs b = \<lparr>bm_move = fst (xs ! k), bm_evaluation = Some (snd (xs ! k))\<rparr>"
      then obtain k where k: "first_max xs k" "w < snd (xs ! k)"
         "pick xs b = \<lparr>bm_move = fst (xs ! k), bm_evaluation = Some (snd (xs ! k))\<rparr>"
        by blast
      have "snd x < snd (xs ! k)" using False k(2) by simp
      then have "first_max (x # xs) (Suc k)" using k(1) first_max_Suc by blast
      with k p show ?thesis by (intro disjI2 exI [of _ "Suc k"]) simp
    qed
  qed
qed

lemma pick_none:
  "xs \<noteq> [] \<Longrightarrow>
   \<exists>k. first_max xs k
      \<and> pick xs \<lparr>bm_move = [], bm_evaluation = None\<rparr>
          = \<lparr>bm_move = fst (xs ! k), bm_evaluation = Some (snd (xs ! k))\<rparr>"
proof (cases xs)
  case Nil
  assume "xs \<noteq> []"
  with Nil show ?thesis by simp
next
  case (Cons x ys)
  define b1 where "b1 = \<lparr>bm_move = fst x, bm_evaluation = Some (snd x)\<rparr>"
  have p: "pick xs \<lparr>bm_move = [], bm_evaluation = None\<rparr> = pick ys b1"
    using Cons by (simp add: better_def b1_def)
  have e: "bm_evaluation b1 = Some (snd x)" by (simp add: b1_def)
  from pick_some [OF e, of ys] show ?thesis
  proof
    assume a: "(\<forall>y\<in>set ys. snd y \<le> snd x) \<and> pick ys b1 = b1"
    then have "first_max (x # ys) 0" using first_max_zero by blast
    with a p Cons show ?thesis unfolding b1_def by (intro exI [of _ 0]) simp
  next
    assume "\<exists>k. first_max ys k \<and> snd x < snd (ys ! k)
        \<and> pick ys b1 = \<lparr>bm_move = fst (ys ! k), bm_evaluation = Some (snd (ys ! k))\<rparr>"
    then obtain k where k: "first_max ys k" "snd x < snd (ys ! k)"
       "pick ys b1 = \<lparr>bm_move = fst (ys ! k), bm_evaluation = Some (snd (ys ! k))\<rparr>"
      by blast
    have "first_max (x # ys) (Suc k)" using k(1,2) by (rule first_max_Suc)
    with k p Cons show ?thesis by (intro exI [of _ "Suc k"]) simp
  qed
qed

text \<open>
  Claim C6. In a position with at least one legal move, all of which the rules engine
  plays, \<open>getBestMove\<close> returns a candidate whose value, the negated material evaluation
  of the position it leads to, is the largest among the candidates; every earlier
  candidate in the order of the legal moves has a strictly smaller value, so among equal
  best candidates the first is returned; and the evaluator's position is the same after
  the call as before it.
\<close>

theorem getBestMove_first_maximum:
  assumes "legal_moves E (cur eng) = ms" and "ms \<noteq> []"
    and "\<forall>mv\<in>set ms. play_move E (cur eng) mv \<noteq> None"
  shows "\<exists>k<length ms.
           fst (getBestMove E eng)
             = \<lparr>bm_move = san (ms ! k), bm_evaluation = Some (candidate_eval E eng (ms ! k))\<rparr>
           \<and> (\<forall>j<length ms. candidate_eval E eng (ms ! j) \<le> candidate_eval E eng (ms ! k))
           \<and> (\<forall>j<k. candidate_eval E eng (ms ! j) < candidate_eval E eng (ms ! k))
           \<and> snd (getBestMove E eng) = eng"
proof -
  define xs where "xs = map (\<lambda>mv. (san mv, candidate_eval E eng mv)) ms"
  have g: "fst (getBestMove E eng) = pick xs \<lparr>bm_move = [], bm_evaluation = None\<rparr>"
    using assms best_loop_pick [OF assms(3), of "\<lparr>bm_move = [], bm_evaluation = None\<rparr>"]
    by (simp add: getBestMove_def Let_def xs_def)
  have "xs \<noteq> []" using assms(2) by (simp add: xs_def)
  from pick_none [OF this] obtain k where k: "first_max xs k"
    "pick xs \<lparr>bm_move = [], bm_evaluation = None\<rparr>
       = \<lparr>bm_move = fst (xs ! k), bm_evaluation = Some (snd (xs ! k))\<rparr>" by blast
  have len: "length xs = length ms" by (simp add: xs_def)
  have nth: "\<And>j. j < length ms \<Longrightarrow> xs ! j = (san (ms ! j), candidate_eval E eng (ms ! j))"
    by (simp add: xs_def)
  have kl: "k < length ms" using k(1) len by (simp add: first_max_def)
  have mx: "\<forall>j<length ms. candidate_eval E eng (ms ! j) \<le> candidate_eval E eng (ms ! k)"
    using k(1) len nth kl by (auto simp: first_max_def)
  have fs: "\<forall>j<k. candidate_eval E eng (ms ! j) < candidate_eval E eng (ms ! k)"
    using k(1) len nth kl by (auto simp: first_max_def)
  show ?thesis
    using g k(2) kl mx fs nth getBestMove_board [of E eng] by (intro exI [of _ k]) simp
qed

text \<open>In the king-and-rook position the second legal move has the largest value and is
  the one returned.\<close>

theorem getBestMove_first_maximum_witness:
  "legal_moves ref_engine (cur rook_board)
     = [\<lparr>san = ''Kxa2'', flags = ''c''\<rparr>, \<lparr>san = ''Kb1'', flags = ''n''\<rparr>]
   \<and> play_move ref_engine (cur rook_board) \<lparr>san = ''Kxa2'', flags = ''c''\<rparr> \<noteq> None
   \<and> play_move ref_engine (cur rook_board) \<lparr>san = ''Kb1'', flags = ''n''\<rparr> \<noteq> None
   \<and> candidate_eval ref_engine rook_board \<lparr>san = ''Kxa2'', flags = ''c''\<rparr> = 0
   \<and> candidate_eval ref_engine rook_board \<lparr>san = ''Kb1'', flags = ''n''\<rparr> = 5
   \<and> fst (getBestMove ref_engine rook_board) = \<lparr>bm_move = ''Kb1'', bm_evaluation = Some 5\<rparr>
   \<and> snd (getBestMove ref_engine rook_board) = rook_board"
proof -
  define ms where "ms = [\<lparr>san = ''Kxa2'', flags = ''c''\<rparr>, \<lparr>san = ''Kb1'', flags = ''n''\<rparr>]"
  have h1: "legal_moves ref_engine (cur rook_board) = ms" unfolding ms_def by code_simp
  have h2: "ms \<noteq> []" by (simp add: ms_def)
  have p0: "play_move ref_engine (cur rook_board) \<lparr>san = ''Kxa2'', flags = ''c''\<rparr> \<noteq> None"
    by code_simp
  have p1: "play_move ref_engine (cur rook_board) \<lparr>san = ''Kb1'', flags = ''n''\<rparr> \<noteq> None"
    by code_simp
  have h3: "\<forall>mv\<in>set ms. play_move ref_engine (cur rook_board) mv \<noteq> None"
    using p0 p1 by (simp add: ms_def)
  have v0: "candidate_eval ref_engine rook_board \<lparr>san = ''Kxa2'', flags = ''c''\<rparr> = 0"
    by code_simp
  have v1: "candidate_eval ref_engine rook_board \<lparr>san = ''Kb1'', flags = ''n''\<rparr> = 5"
    by code_simp
  from getBestMove_first_maximum [OF h1 h2 h3] obtain k where
    k: "k < length ms"
       "fst (getBestMove ref_engine rook_board)
          = \<lparr>bm_move = san (ms ! k),
             bm_evaluation = Some (candidate_eval ref_engine rook_board (ms ! k))\<rparr>"
       "\<forall>j<length ms. candidate_eval ref_engine rook_board (ms ! j)
            \<le> candidate_eval ref_engine rook_board (ms ! k)"
       "snd (getBestMove ref_engine rook_board) = rook_board"
    by blast
  have "1 < length ms" by (simp add: ms_def)
  with k(3) have "candidate_eval ref_engine rook_board (ms ! 1)
          \<le> candidate_eval ref_engine rook_board (ms ! k)"
    by blast
  then have le: "5 \<le> candidate_eval ref_engine rook_board (ms ! k)"
    using v1 by (simp add: ms_def)
  have "k \<noteq> 0"
  proof
    assume "k = 0"
    with le v0 show False by (simp add: ms_def)
  qed
  with k(1) have "k = 1" by (simp add: ms_def)
  with k(2) v1 have "fst (getBestMove ref_engine rook_board)
      = \<lparr>bm_move = ''Kb1'', bm_evaluation = Some 5\<rparr>"
    by (simp add: ms_def)
  with h1 p0 p1 v0 v1 k(4) show ?thesis by (simp add: ms_def)
qed

section \<open>The game analysis: properties\<close>



lemma game_move_user_fails:
  assumes "isUserMove E (gs_chess st) uc" and "move_san E (gs_chess st) (move m) = Inl e"
  shows "\<exists>eng. game_move E uc i m st
           = (st\<lparr>gs_totalMoves := gs_totalMoves st + 1, gs_engine := eng\<rparr>, Some e)"
  using assms by (auto simp: game_move_def Let_def split: prod.splits)





subsection \<open>From the boards of the loop to the replay of the game\<close>

















text \<open>
  Claim C3, which the code does not meet. The only call that can throw while a move of
  the user is analysed is \<open>chess.move\<close> itself. The handler calls it once more, outside
  any \<open>try\<close>, on the same board with the same move; it throws again, and the exception
  ends the loop: the board stays as it was and no later move is replayed, whatever the
  later moves are.
\<close>

theorem game_loop_stops_at_failing_user_move:
  assumes "isUserMove E (gs_chess st) uc" and "move_san E (gs_chess st) (move m) = Inl e"
  shows "snd (game_loop E uc i (m # rest) st) = Some e
     \<and> gs_chess (fst (game_loop E uc i (m # rest) st)) = gs_chess st
     \<and> game_loop E uc i (m # rest) st = game_loop E uc i [m] st"
proof -
  from game_move_user_fails [OF assms] obtain eng where
    "game_move E uc i m st
       = (st\<lparr>gs_totalMoves := gs_totalMoves st + 1, gs_engine := eng\<rparr>, Some e)"
    by blast
  then show ?thesis by simp
qed

text \<open>
  On the game \<open>1. {book} e4 e5\<close> analysed for White, the first token is not a move: the
  replay ends there with the exception, on the start position, and \<open>e4\<close>, which is legal
  there, is never played.
\<close>

theorem game_loop_stops_at_failing_user_move_witness:
  "moves (parsePgn ''1. {book} e4 e5'') = [token ''{book}'', token ''e4'', token ''e5'']
   \<and> isUserMove ref_engine (gs_chess first_state) ''white''
   \<and> move_san ref_engine (gs_chess first_state) (move (token ''{book}''))
       = Inl (InvalidMove ''{book}'')
   \<and> snd (game_loop ref_engine ''white'' 0 (moves (parsePgn ''1. {book} e4 e5'')) first_state)
       = Some (InvalidMove ''{book}'')
   \<and> gs_chess (fst (game_loop ref_engine ''white'' 0 (moves (parsePgn ''1. {book} e4 e5''))
        first_state)) = start_board
   \<and> move_san ref_engine start_board ''e4'' = Inr after_e4"
proof -
  have ms: "moves (parsePgn ''1. {book} e4 e5'')
              = [token ''{book}'', token ''e4'', token ''e5'']"
    by code_simp
  have u: "isUserMove ref_engine (gs_chess first_state) ''white''"
    by code_simp
  have f: "move_san ref_engine (gs_chess first_state) (move (token ''{book}''))
             = Inl (InvalidMove ''{book}'')"
    by code_simp
  have b: "gs_chess first_state = start_board" by (simp add: first_state_def)
  have e4: "move_san ref_engine start_board ''e4'' = Inr after_e4"
    by code_simp
  note stop = game_loop_stops_at_failing_user_move
                [OF u f, of 0 "[token ''e4'', token ''e5'']"]
  have r1: "snd (game_loop ref_engine ''white'' 0 (moves (parsePgn ''1. {book} e4 e5''))
                first_state) = Some (InvalidMove ''{book}'')"
    unfolding ms using stop by blast
  have r2: "gs_chess (fst (game_loop ref_engine ''white'' 0
                (moves (parsePgn ''1. {book} e4 e5'')) first_state)) = start_board"
    unfolding ms using stop b by metis
  from ms u f r1 r2 e4 show ?thesis by blast
qed

section \<open>The tactics probe: what it counts\<close>

text \<open>
  Claim C2, which the code does not meet. \<open>countAttackedPieces\<close> is called after the
  candidate move has been made, when it is the opponent's turn: the pieces it counts are
  those of the player who has just moved that the opponent attacks. In the fork position
  the knight move to c7 attacks the black king and the black rook, two pieces of the
  opponent, while no white piece is attacked; the count tested is 0, and \<open>findTactics\<close>
  reports no tactic in a position with a fork.
\<close>

theorem fork_probe_counts_own_pieces:
  "move_obj ref_engine fork_board \<lparr>san = ''Nc7+'', flags = ''n''\<rparr> = Inr after_fork
   \<and> attacked_by_mover ref_engine after_fork = 2
   \<and> countAttackedPieces ref_engine after_fork = 0
   \<and> hasTactic (fst (findTactics ref_engine fork_board)) = False"
  by code_simp

section \<open>The fundamentals analysis: properties\<close>





section \<open>The orchestrator: properties\<close>

lemma fallbackAnalysis_built:
  "\<exists>g t ops f. fst (fallbackAnalysis E eng parsedGame uc)
     = \<lparr>game = Built g, tactics = Built t, openings = Built ops, fundamentals = Built f\<rparr>"
  by (simp add: fallbackAnalysis_def Let_def split: prod.splits)

lemma fallbackAnalysis_outcome:
  "outcome_of (game (fst (fallbackAnalysis E eng parsedGame uc)))
     = Some (JStr (game_outcome parsedGame uc))"
  by (simp add: fallbackAnalysis_def runGameAnalysis_def outcome_of_def Let_def
      split: prod.splits)

lemma built_fully_shaped:
  "fully_shaped
     \<lparr>game = Built g, tactics = Built t, openings = Built ops, fundamentals = Built f\<rparr>"
  by (simp add: fully_shaped_def has_fields_def)

lemma analyzePgn_fallback:
  "openRouterApiKey = [] \<or> (\<exists>e. race env = Inl e) \<Longrightarrow>
   fst (analyzePgn E openRouterApiKey env eng pgn username)
     = fst (fallbackAnalysis E eng (parsePgn pgn)
         (determineUserColor (parsePgn pgn) username))"
  by (auto simp: analyzePgn_def analyze_body_def Let_def)

lemma empty_pgn_outcome: "game_outcome (parsePgn []) uc = ''Unknown''"
proof -
  have "result (parsePgn []) = None" by code_simp
  then show ?thesis by (simp add: game_outcome_def truthy_def)
qed

text \<open>
  Claim C1, as amended. \<open>analyzePgn\<close> returns a bundle for every pair of strings, and
  its \<open>try\<close> block never throws, so that its handler never runs. When no
  API key is configured, or the AI analysis fails or does not settle within the timeout,
  the bundle is the one of the heuristic pipelines: all four results are built by the
  code, with every field of their shapes, and for the empty PGN the outcome is
  \<open>Unknown\<close>. When a key is configured and the AI analysis settles in time, the bundle
  holds the four parsed replies as they are: nothing checks their shape.
\<close>

theorem analyzePgn_bundle:
  "(openRouterApiKey = [] \<or> (\<exists>e. race env = Inl e) \<longrightarrow>
      (\<exists>g t ops f. fst (analyzePgn E openRouterApiKey env eng pgn username)
         = \<lparr>game = Built g, tactics = Built t, openings = Built ops,
            fundamentals = Built f\<rparr>)
      \<and> fully_shaped (fst (analyzePgn E openRouterApiKey env eng pgn username))
      \<and> outcome_of (game (fst (analyzePgn E openRouterApiKey env eng [] ''someuser'')))
          = Some (JStr ''Unknown''))
   \<and> (openRouterApiKey \<noteq> [] \<and> race env = Inr b \<longrightarrow>
        fst (analyzePgn E openRouterApiKey env eng pgn username) = b)
   \<and> (\<exists>r. analyze_body E openRouterApiKey env eng pgn username = Inr r)"
proof (intro conjI impI)
  assume a: "openRouterApiKey = [] \<or> (\<exists>e. race env = Inl e)"
  note fb = analyzePgn_fallback [OF a]
  show "\<exists>g t ops f. fst (analyzePgn E openRouterApiKey env eng pgn username)
         = \<lparr>game = Built g, tactics = Built t, openings = Built ops,
            fundamentals = Built f\<rparr>"
    unfolding fb by (rule fallbackAnalysis_built)
  then show "fully_shaped (fst (analyzePgn E openRouterApiKey env eng pgn username))"
    using built_fully_shaped by auto
  show "outcome_of (game (fst (analyzePgn E openRouterApiKey env eng [] ''someuser'')))
          = Some (JStr ''Unknown'')"
    unfolding analyzePgn_fallback [OF a, of E eng "[]" "''someuser''"]
    by (simp add: fallbackAnalysis_outcome empty_pgn_outcome)
next
  assume "openRouterApiKey \<noteq> [] \<and> race env = Inr b"
  then show "fst (analyzePgn E openRouterApiKey env eng pgn username) = b"
    by (simp add: analyzePgn_def analyze_body_def Let_def)
next
  show "\<exists>r. analyze_body E openRouterApiKey env eng pgn username = Inr r"
    by (simp add: analyze_body_def Let_def split: sum.splits)
qed

theorem analyzePgn_bundle_witness:
  "(\<exists>e. race no_network = Inl e)
   \<and> fully_shaped (fst (analyzePgn ref_engine ''key'' no_network start_board
        ''1. e4 *'' ''someuser''))
   \<and> outcome_of (game (fst (analyzePgn ref_engine ''key'' no_network start_board []
        ''someuser''))) = Some (JStr ''Unknown'')
   \<and> race empty_replies
       = Inr \<lparr>game = Cast (JObj []), tactics = Cast (JObj []), openings = Cast (JObj []),
              fundamentals = Cast (JObj [])\<rparr>
   \<and> fst (analyzePgn ref_engine ''key'' empty_replies start_board ''1. e4 *'' ''someuser'')
       = \<lparr>game = Cast (JObj []), tactics = Cast (JObj []), openings = Cast (JObj []),
          fundamentals = Cast (JObj [])\<rparr>"
proof -
  have r1: "\<exists>e. race no_network = Inl e"
    by (simp add: race_def performAIAnalysis_def no_network_def)
  then have h1: "''key'' = [] \<or> (\<exists>e. race no_network = Inl e)" by simp
  have r2: "race empty_replies
       = Inr \<lparr>game = Cast (JObj []), tactics = Cast (JObj []), openings = Cast (JObj []),
              fundamentals = Cast (JObj [])\<rparr>"
    by (simp add: race_def performAIAnalysis_def empty_replies_def)
  then have h2: "''key'' \<noteq> [] \<and> race empty_replies
       = Inr \<lparr>game = Cast (JObj []), tactics = Cast (JObj []), openings = Cast (JObj []),
              fundamentals = Cast (JObj [])\<rparr>"
    by simp
  note a1 = analyzePgn_bundle [where openRouterApiKey = "''key''" and env = no_network
              and E = ref_engine and eng = start_board and pgn = "''1. e4 *''"
              and username = "''someuser''"]
  note a2 = analyzePgn_bundle [where openRouterApiKey = "''key''" and env = empty_replies
              and E = ref_engine and eng = start_board and pgn = "''1. e4 *''"
              and username = "''someuser''"]
  from a1 h1 a2 h2 r1 r2 show ?thesis by blast
qed

text \<open>
  Claim C1 as stated fails: with a key configured and an AI service that answers each
  call in time with the JSON object \<open>{}\<close>, the bundle returned for the empty PGN has
  none of the fields, and no outcome.
\<close>

theorem analyzePgn_unchecked_reply:
  "\<not> fully_shaped (fst (analyzePgn ref_engine ''key'' empty_replies start_board []
        ''someuser''))
   \<and> outcome_of (game (fst (analyzePgn ref_engine ''key'' empty_replies start_board []
        ''someuser''))) \<noteq> Some (JStr ''Unknown'')"
  by (simp add: analyzePgn_def analyze_body_def Let_def race_def performAIAnalysis_def
      empty_replies_def fully_shaped_def has_fields_def outcome_of_def)

end
